theory Spec2Isabelle
  imports Complex_Main "HOL-Library.Word"
begin

section \<open>The AES provider of node-webcrypto-p11 (src/lib/crypto/aes.ts)\<close>

text \<open>
  The development embeds \<^verbatim>\<open>src/lib/crypto/aes.ts\<close>: the key template builder
  \<^verbatim>\<open>create_template\<close>, the abstract class \<^verbatim>\<open>AesCrypto\<close> with its operations
  \<^verbatim>\<open>generateKey\<close>, \<^verbatim>\<open>exportKey\<close>, \<^verbatim>\<open>importKey\<close>, \<^verbatim>\<open>encrypt\<close>, \<^verbatim>\<open>decrypt\<close>
  and \<^verbatim>\<open>getOutputBufferSize\<close>, and the three subclasses \<^verbatim>\<open>AesGCM\<close>, \<^verbatim>\<open>AesCBC\<close>
  and \<^verbatim>\<open>AesECB\<close>.

  Every operation of the source first awaits the inherited method of
  \<^verbatim>\<open>BaseCrypto\<close> (\<^verbatim>\<open>super.exportKey.apply(this, arguments)\<close> and so on), which
  lives in another file. The definitions below are the continuations that run once
  that promise has resolved. A promise that rejects, and an exception thrown inside
  a promise executor, are the \<open>Inl\<close> branch of a sum; a promise that resolves is
  the \<open>Inr\<close> branch.
\<close>

subsection \<open>JavaScript values\<close>

type_synonym byte = "8 word"

text \<open>
  The numbers this file computes with are integers, or \<^verbatim>\<open>NaN\<close> (from
  \<^verbatim>\<open>undefined\<close> in arithmetic, or from \<^verbatim>\<open>Infinity * 0\<close>).
\<close>

datatype jsnumber = NaN | Number int

datatype error =
    WebCryptoError string  \<comment> \<open>\<^verbatim>\<open>new WebCryptoError(message)\<close>\<close>
  | NOT_SUPPORTED          \<comment> \<open>\<^verbatim>\<open>new WebCryptoError(WebCryptoError.NOT_SUPPORTED)\<close>\<close>
  | TypeError              \<comment> \<open>the runtime's error on reading a property of \<^verbatim>\<open>null\<close> or \<^verbatim>\<open>undefined\<close>\<close>
  | Pkcs11Error string     \<comment> \<open>an error reported by the session or the module\<close>

text \<open>\<^verbatim>\<open>Array.prototype.indexOf\<close>: the first index holding the element, or \<open>-1\<close>.\<close>

fun indexOf_from :: "'a list \<Rightarrow> 'a \<Rightarrow> int \<Rightarrow> int" where
  "indexOf_from [] x i = - 1"
| "indexOf_from (y # ys) x i = (if y = x then i else indexOf_from ys x (i + 1))"

definition indexOf :: "'a list \<Rightarrow> 'a \<Rightarrow> int" where
  "indexOf xs x = indexOf_from xs x 0"

text \<open>
  \<^verbatim>\<open>String.prototype.toLowerCase\<close> on ASCII text (strings are modelled as lists of
  ASCII characters): the letters A to Z are mapped to a to z, every other character
  is kept.
\<close>

definition toLowerCase_char :: "char \<Rightarrow> char" where
  "toLowerCase_char c =
     (case map_of (zip ''ABCDEFGHIJKLMNOPQRSTUVWXYZ'' ''abcdefghijklmnopqrstuvwxyz'') c of
        None \<Rightarrow> c
      | Some l \<Rightarrow> l)"

definition toLowerCase :: "string \<Rightarrow> string" where
  "toLowerCase s = map toLowerCase_char s"

text \<open>
  A number inside a template literal (\<^verbatim>\<open>`AES-${alg.length}`\<close>): decimal digits,
  a leading minus sign for a negative integer, \<^verbatim>\<open>NaN\<close> for \<^verbatim>\<open>NaN\<close>. (JavaScript
  switches to exponent notation from \<open>10\<^sup>2\<^sup>1\<close> on; key lengths stay far below.)
\<close>

fun string_of_nat :: "nat \<Rightarrow> string" where
  "string_of_nat n =
     (if n < 10 then [''0123456789'' ! n]
      else string_of_nat (n div 10) @ [''0123456789'' ! (n mod 10)])"

declare string_of_nat.simps [simp del]

definition Number_toString :: "jsnumber \<Rightarrow> string" where
  "Number_toString x =
     (case x of
        NaN \<Rightarrow> ''NaN''
      | Number n \<Rightarrow> if n < 0 then ''-'' @ string_of_nat (nat (- n)) else string_of_nat (nat n))"

text \<open>
  \<^verbatim>\<open>x >> k\<close>: the operand is converted to a signed 32-bit integer (\<^verbatim>\<open>NaN\<close> becomes
  0, an integer wraps modulo \<open>2\<^sup>3\<^sup>2\<close>) and shifted arithmetically.
\<close>

definition ToInt32 :: "jsnumber \<Rightarrow> 32 word" where
  "ToInt32 x = (case x of NaN \<Rightarrow> 0 | Number n \<Rightarrow> word_of_int n)"

definition js_shr :: "jsnumber \<Rightarrow> nat \<Rightarrow> int" where
  "js_shr x k = sint (signed_drop_bit (k mod 32) (ToInt32 x))"

text \<open>\<^verbatim>\<open>!!process.env.X\<close>: true when the variable is set to a non-empty string.\<close>

definition truthy :: "string option \<Rightarrow> bool" where
  "truthy v = (case v of None \<Rightarrow> False | Some s \<Rightarrow> s \<noteq> [])"

text \<open>
  \<^verbatim>\<open>/AES-(\w+)/.exec(s)\<close>: the leftmost place where \<^verbatim>\<open>AES-\<close> is followed by at
  least one word character (a letter, a digit or the underscore); the captured
  group is the longest run of word characters there. \<open>None\<close> is \<^verbatim>\<open>null\<close>.
\<close>

definition is_word_char :: "char \<Rightarrow> bool" where
  "is_word_char c =
     (c \<in> set ''ABCDEFGHIJKLMNOPQRSTUVWXYZabcdefghijklmnopqrstuvwxyz0123456789_'')"

definition regex_match_here :: "string \<Rightarrow> string option" where
  "regex_match_here s =
     (if take 4 s = ''AES-'' \<and> takeWhile is_word_char (drop 4 s) \<noteq> []
      then Some (takeWhile is_word_char (drop 4 s))
      else None)"

fun regex_exec :: "string \<Rightarrow> string option" where
  "regex_exec [] = None"
| "regex_exec (c # cs) =
     (case regex_match_here (c # cs) of
        Some g \<Rightarrow> Some g
      | None \<Rightarrow> regex_exec cs)"

text \<open>
  \<^verbatim>\<open>Buffer.prototype.slice(start, end)\<close>: each offset is clamped to the buffer; a
  negative offset counts from the end of the buffer, \<^verbatim>\<open>NaN\<close> is 0.
\<close>

definition adjustOffset :: "jsnumber \<Rightarrow> nat \<Rightarrow> nat" where
  "adjustOffset offset len =
     (case offset of
        NaN \<Rightarrow> 0
      | Number n \<Rightarrow>
          if n < 0 then (if n + int len > 0 then nat (n + int len) else 0)
          else if n < int len then nat n
          else len)"

definition Buffer_slice :: "'a list \<Rightarrow> jsnumber \<Rightarrow> jsnumber \<Rightarrow> 'a list" where
  "Buffer_slice buf start endOffset =
     (let s = adjustOffset start (length buf);
          e = adjustOffset endOffset (length buf)
      in take (e - s) (drop s buf))"

subsection \<open>Base64url\<close>

text \<open>
  Export encodes the key value as base64url and import decodes it. The two
  functions are \<^verbatim>\<open>Base64Url.encode\<close> of the package webcrypto-core and
  \<^verbatim>\<open>utils.b64_decode\<close> of \<^verbatim>\<open>src/lib/utils.ts\<close>. They are modelled as the
  unpadded URL-safe base64 of JSON Web Keys: three bytes become four characters
  of the alphabet below, a last group of one or two bytes becomes two or three
  characters.
\<close>

definition base64url_alphabet :: string where
  "base64url_alphabet = ''ABCDEFGHIJKLMNOPQRSTUVWXYZabcdefghijklmnopqrstuvwxyz0123456789-_''"

definition sextet_char :: "nat \<Rightarrow> char" where
  "sextet_char n = base64url_alphabet ! n"

definition sextet_of :: "char \<Rightarrow> nat option" where
  "sextet_of c =
     (let i = indexOf base64url_alphabet c in if i = - 1 then None else Some (nat i))"

text \<open>
  Modelled from the spec: \<^verbatim>\<open>Base64Url.encode\<close> (webcrypto-core) is missing; the
  spec has export "base64url-encode the raw value".
\<close>

fun Base64Url_encode :: "byte list \<Rightarrow> string" where
  "Base64Url_encode (a # b # c # rest) =
     sextet_char (unat a div 4)
     # sextet_char (unat a mod 4 * 16 + unat b div 16)
     # sextet_char (unat b mod 16 * 4 + unat c div 64)
     # sextet_char (unat c mod 64)
     # Base64Url_encode rest"
| "Base64Url_encode [a, b] =
     [sextet_char (unat a div 4),
      sextet_char (unat a mod 4 * 16 + unat b div 16),
      sextet_char (unat b mod 16 * 4)]"
| "Base64Url_encode [a] =
     [sextet_char (unat a div 4), sextet_char (unat a mod 4 * 16)]"
| "Base64Url_encode [] = []"

fun bytes_of_sextets :: "nat list \<Rightarrow> byte list option" where
  "bytes_of_sextets (s0 # s1 # s2 # s3 # rest) =
     (case bytes_of_sextets rest of
        None \<Rightarrow> None
      | Some bs \<Rightarrow>
          Some (of_nat (s0 * 4 + s1 div 16)
                # of_nat (s1 mod 16 * 16 + s2 div 4)
                # of_nat (s2 mod 4 * 64 + s3)
                # bs))"
| "bytes_of_sextets [s0, s1, s2] =
     Some [of_nat (s0 * 4 + s1 div 16), of_nat (s1 mod 16 * 16 + s2 div 4)]"
| "bytes_of_sextets [s0, s1] = Some [of_nat (s0 * 4 + s1 div 16)]"
| "bytes_of_sextets [s0] = None"
| "bytes_of_sextets [] = Some []"

fun sextets_of :: "string \<Rightarrow> nat list option" where
  "sextets_of [] = Some []"
| "sextets_of (c # cs) =
     (case sextet_of c of
        None \<Rightarrow> None
      | Some s \<Rightarrow> (case sextets_of cs of None \<Rightarrow> None | Some ss \<Rightarrow> Some (s # ss)))"

text \<open>
  Modelled from the spec: \<^verbatim>\<open>utils.b64_decode\<close> (\<^verbatim>\<open>src/lib/utils.ts\<close>) is missing;
  the spec has import "base64url-decode the \<^verbatim>\<open>k\<close> field to raw bytes". The argument
  is \<^verbatim>\<open>undefined\<close> (\<open>None\<close>) when the key data has no \<^verbatim>\<open>k\<close> field; that, and a
  string that is not base64url, are errors.
\<close>

definition b64_decode :: "string option \<Rightarrow> error + byte list" where
  "b64_decode k =
     (case k of
        None \<Rightarrow> Inl TypeError
      | Some s \<Rightarrow>
          (case sextets_of s of
             None \<Rightarrow> Inl (WebCryptoError ''b64_decode: not a base64url string'')
           | Some ss \<Rightarrow>
               (case bytes_of_sextets ss of
                  None \<Rightarrow> Inl (WebCryptoError ''b64_decode: not a base64url string'')
                | Some bs \<Rightarrow> Inr bs)))"

subsection \<open>Data\<close>

text \<open>
  Field names carry a prefix where the source's name is a keyword or a constant
  of the logic (\<^verbatim>\<open>class\<close>, \<^verbatim>\<open>value\<close>, \<^verbatim>\<open>id\<close>, \<^verbatim>\<open>length\<close>) or the name of an
  operation below (\<^verbatim>\<open>encrypt\<close>, \<^verbatim>\<open>decrypt\<close>).
\<close>

record process_env =
  WEBCRYPTO_PKCS11_TOKEN :: "string option"
  WEBCRYPTO_PKCS11_SENSITIVE :: "string option"

text \<open>\<^verbatim>\<open>AesKeyGenParams\<close> and \<^verbatim>\<open>AesKeyAlgorithm\<close>: a name and a bit length.\<close>

record AesKeyAlgorithm =
  alg_name :: string
  alg_length :: jsnumber

record JsonWebKey =
  jwk_kty :: "string option"
  jwk_k :: "string option"
  jwk_alg :: "string option"
  jwk_ext :: "bool option"

text \<open>
  What \<^verbatim>\<open>exportKey\<close> resolves to and what \<^verbatim>\<open>importKey\<close> is given: a JSON Web Key
  or a buffer of bytes.
\<close>

datatype KeyData = Jwk JsonWebKey | Raw "byte list"

datatype ObjectClass = SECRET_KEY

datatype KeyType = AES

record ITemplate =
  t_token :: bool
  t_sensitive :: bool
  t_class :: ObjectClass
  t_keyType :: KeyType
  t_label :: string
  t_id :: "byte list"
  t_extractable :: bool
  t_derive :: bool
  t_sign :: bool
  t_verify :: bool
  t_encrypt :: bool
  t_decrypt :: bool
  t_wrap :: bool
  t_unwrap :: bool
  t_value :: "KeyData option"
  t_valueLen :: "int option"

text \<open>
  A buffer that the session hands back is a view of an \<^verbatim>\<open>ArrayBuffer\<close>: its bytes
  are \<^verbatim>\<open>length\<close> bytes of \<^verbatim>\<open>buffer\<close> from \<^verbatim>\<open>byteOffset\<close> on. The source reads
  both the bytes of such a buffer and its whole \<^verbatim>\<open>.buffer\<close>, which may be larger
  (an output buffer allocated with room to spare, or a shared pool). The buffers
  the caller passes in are read through their bytes only and are lists of bytes.
\<close>

record Buffer =
  buffer :: "byte list"
  byteOffset :: nat
  buf_length :: nat

definition bytes_of :: "Buffer \<Rightarrow> byte list" where
  "bytes_of b = take (buf_length b) (drop (byteOffset b) (buffer b))"

text \<open>The two attributes \<^verbatim>\<open>exportKey\<close> reads from a key object.\<close>

record KeyAttributes =
  attr_value :: Buffer
  attr_valueLen :: int

record Version =
  major :: nat
  minor :: nat

text \<open>The two parameter classes of graphene-pk11 for GCM, the older and the newer.\<close>

datatype GcmParamsClass = AesGcmParams | AesGcm240Params

datatype MechanismParams =
    NoParams
  | IvParams "byte list"
  | GcmParams GcmParamsClass "byte list" "byte list option" int

record IAlgorithm =
  mech_name :: string
  mech_params :: MechanismParams

text \<open>
  The session and its module are external (package graphene-pk11). A session is
  the record of the calls this file makes on it, over key objects of type \<open>'obj\<close>:
  \<^verbatim>\<open>session.slot.module.cryptokiVersion\<close>, \<^verbatim>\<open>session.generateKey\<close> (which reports
  an error message or a key object), \<^verbatim>\<open>session.create\<close>,
  \<^verbatim>\<open>key.key.getAttribute({value, valueLen})\<close>, and the one-shot cipher and
  decipher, which take the mechanism, the key object, the data and the size of
  the output buffer, and call back with an error or with the buffer \<^verbatim>\<open>data2\<close>.
\<close>

record 'obj Session =
  cryptokiVersion :: Version
  session_generateKey :: "ITemplate \<Rightarrow> string + 'obj"
  session_create :: "ITemplate \<Rightarrow> error + 'obj"
  getAttribute :: "'obj \<Rightarrow> error + KeyAttributes"
  createCipher_once :: "IAlgorithm \<Rightarrow> 'obj \<Rightarrow> byte list \<Rightarrow> jsnumber \<Rightarrow> error + Buffer"
  createDecipher_once :: "IAlgorithm \<Rightarrow> 'obj \<Rightarrow> byte list \<Rightarrow> jsnumber \<Rightarrow> error + Buffer"

record 'obj CryptoKey =
  key_obj :: 'obj
  key_algorithm :: AesKeyAlgorithm

subsection \<open>The key template builder\<close>

text \<open>
  \<^verbatim>\<open>create_template(session, alg, extractable, keyUsages)\<close>. The process
  environment is a parameter, and so is \<open>guid\<close>, the identifier that
  \<^verbatim>\<open>utils.GUID(session)\<close> returns. The fields \<^verbatim>\<open>value\<close> and \<^verbatim>\<open>valueLen\<close> are
  left unset; \<^verbatim>\<open>importKey\<close> and \<^verbatim>\<open>generateKey\<close> set one of them afterwards.
\<close>

definition create_template ::
  "process_env \<Rightarrow> byte list \<Rightarrow> AesKeyAlgorithm \<Rightarrow> bool \<Rightarrow> string list \<Rightarrow> ITemplate" where
  "create_template env guid alg extractable keyUsages =
     \<lparr> t_token = truthy (WEBCRYPTO_PKCS11_TOKEN env),
       t_sensitive = truthy (WEBCRYPTO_PKCS11_SENSITIVE env),
       t_class = SECRET_KEY,
       t_keyType = AES,
       t_label = ''AES-'' @ Number_toString (alg_length alg),
       t_id = guid,
       t_extractable = extractable,
       t_derive = False,
       t_sign = (indexOf keyUsages ''sign'' \<noteq> - 1),
       t_verify = (indexOf keyUsages ''verify'' \<noteq> - 1),
       t_encrypt = (indexOf keyUsages ''encrypt'' \<noteq> - 1),
       t_decrypt = (indexOf keyUsages ''decrypt'' \<noteq> - 1),
       t_wrap = (indexOf keyUsages ''wrapKey'' \<noteq> - 1),
       t_unwrap = (indexOf keyUsages ''unwrapKey'' \<noteq> - 1),
       t_value = None,
       t_valueLen = None \<rparr>"

subsection \<open>Key generation, export and import\<close>

definition generateKey ::
  "process_env \<Rightarrow> 'obj Session \<Rightarrow> byte list \<Rightarrow> AesKeyAlgorithm \<Rightarrow> bool \<Rightarrow> string list
     \<Rightarrow> error + 'obj CryptoKey" where
  "generateKey env session guid algorithm extractable keyUsages =
     (let template = (create_template env guid algorithm extractable keyUsages)
            \<lparr> t_valueLen := Some (js_shr (alg_length algorithm) 3) \<rparr>
      in case session_generateKey session template of
           Inl message \<Rightarrow>
             Inl (WebCryptoError (''Aes: Can not generate new key'' @ [CHR 0x0A] @ message))
         | Inr aesKey \<Rightarrow> Inr \<lparr> key_obj = aesKey, key_algorithm = algorithm \<rparr>)"

text \<open>
  \<^verbatim>\<open>exportKey(format, key)\<close>. The attributes are read before the format is
  looked at. In the \<^verbatim>\<open>jwk\<close> case the match result is indexed without a test for
  \<^verbatim>\<open>null\<close>, which is a \<^verbatim>\<open>TypeError\<close> when the name has no match, and the bytes
  of the value are encoded. The \<^verbatim>\<open>raw\<close> case resolves \<^verbatim>\<open>template.value.buffer\<close>, the
  whole \<^verbatim>\<open>ArrayBuffer\<close> behind the value. The message of the last case quotes the
  format as the caller wrote it.
\<close>

definition exportKey :: "'obj Session \<Rightarrow> string \<Rightarrow> 'obj CryptoKey \<Rightarrow> error + KeyData" where
  "exportKey session format key =
     (case getAttribute session (key_obj key) of
        Inl e \<Rightarrow> Inl e
      | Inr template \<Rightarrow>
          if toLowerCase format = ''jwk'' then
            (case regex_exec (alg_name (key_algorithm key)) of
               None \<Rightarrow> Inl TypeError
             | Some aes \<Rightarrow>
                 Inr (Jwk \<lparr> jwk_kty = Some ''oct'',
                            jwk_k = Some (Base64Url_encode (bytes_of (attr_value template))),
                            jwk_alg = Some (''A'' @ Number_toString (Number (attr_valueLen template * 8)) @ aes),
                            jwk_ext = Some True \<rparr>))
          else if toLowerCase format = ''raw'' then Inr (Raw (buffer (attr_value template)))
          else Inl (WebCryptoError (''Unknown format '' @ [CHR 0x27] @ format @ [CHR 0x27])))"

text \<open>
  \<^verbatim>\<open>importKey(format, keyData, algorithm, extractable, keyUsages)\<close>; of the
  algorithm only its name is read. The format is compared with \<^verbatim>\<open>===\<close>. In the
  \<^verbatim>\<open>jwk\<close> branch the \<^verbatim>\<open>k\<close> field of the key data is decoded (a buffer has no such
  field). In the other branch the key data itself is the value, whatever it is;
  \<^verbatim>\<open>value.length * 8\<close> is \<^verbatim>\<open>NaN\<close> when the value is not a buffer.
\<close>

definition importKey ::
  "process_env \<Rightarrow> 'obj Session \<Rightarrow> byte list \<Rightarrow> string \<Rightarrow> KeyData \<Rightarrow> string \<Rightarrow> bool \<Rightarrow> string list
     \<Rightarrow> error + 'obj CryptoKey" where
  "importKey env session guid format keyData algorithm_name extractable keyUsages =
     (case (if format = ''jwk''
            then map_sum (\<lambda>e. e) Raw
                   (b64_decode (case keyData of Jwk j \<Rightarrow> jwk_k j | Raw bs \<Rightarrow> None))
            else Inr keyData) of
        Inl e \<Rightarrow> Inl e
      | Inr val \<Rightarrow>
          (let aesAlg = \<lparr> alg_name = algorithm_name,
                          alg_length = (case val of
                                          Raw bs \<Rightarrow> Number (int (length bs) * 8)
                                        | Jwk j \<Rightarrow> NaN) \<rparr>;
               template = (create_template env guid aesAlg extractable keyUsages)
                            \<lparr> t_value := Some val \<rparr>
           in case session_create session template of
                Inl e \<Rightarrow> Inl e
              | Inr sessionObject \<Rightarrow> Inr \<lparr> key_obj = sessionObject, key_algorithm = aesAlg \<rparr>))"

subsection \<open>The cipher classes\<close>

datatype AesClass = AesCrypto | AesGCM | AesCBC | AesECB

text \<open>The static field \<^verbatim>\<open>padding\<close>: false in the base class, overridden by \<^verbatim>\<open>AesECB\<close> only.\<close>

definition padding :: "AesClass \<Rightarrow> bool" where
  "padding cls = (case cls of AesECB \<Rightarrow> True | _ \<Rightarrow> False)"

record AesParams =
  iv :: "byte list"
  additionalData :: "byte list option"
  tagLength :: "int option"

text \<open>
  Modelled from the spec: \<^verbatim>\<open>utils.PrepareData\<close> (\<^verbatim>\<open>src/lib/utils.ts\<close>) is missing;
  the spec has the initialisation vector and the additional data passed through
  unmodified.
\<close>

definition PrepareData :: "byte list \<Rightarrow> byte list" where
  "PrepareData bs = bs"

text \<open>
  The local variable \<^verbatim>\<open>AesGcmParamsClass\<close> of \<^verbatim>\<open>AesGCM.wc2pk11\<close>: the older class,
  replaced by the newer one when a session is given and both comparisons hold.
\<close>

definition AesGcmParamsClass :: "'obj Session option \<Rightarrow> GcmParamsClass" where
  "AesGcmParamsClass session =
     (case session of
        None \<Rightarrow> AesGcmParams
      | Some s \<Rightarrow>
          if major (cryptokiVersion s) \<ge> 2 \<and> minor (cryptokiVersion s) \<ge> 40
          then AesGcm240Params
          else AesGcmParams)"

text \<open>\<^verbatim>\<open>wc2pk11(alg, session)\<close> of the base class and of each subclass.\<close>

definition wc2pk11 :: "AesClass \<Rightarrow> AesParams \<Rightarrow> 'obj Session option \<Rightarrow> error + IAlgorithm" where
  "wc2pk11 cls alg session =
     (case cls of
        AesCrypto \<Rightarrow> Inl NOT_SUPPORTED
      | AesGCM \<Rightarrow>
          Inr \<lparr> mech_name = ''AES_GCM'',
                mech_params =
                  GcmParams (AesGcmParamsClass session) (PrepareData (iv alg))
                    (map_option PrepareData (additionalData alg))
                    (case tagLength alg of None \<Rightarrow> 128 | Some t \<Rightarrow> if t = 0 then 128 else t) \<rparr>
      | AesCBC \<Rightarrow> Inr \<lparr> mech_name = ''AES_CBC_PAD'', mech_params = IvParams (PrepareData (iv alg)) \<rparr>
      | AesECB \<Rightarrow> Inr \<lparr> mech_name = ''AES_ECB'', mech_params = NoParams \<rparr>)"

text \<open>
  \<^verbatim>\<open>getOutputBufferSize(keyAlg, enc, dataSize)\<close>, where \<^verbatim>\<open>dataSize\<close> is the
  length of a buffer. With \<^verbatim>\<open>len = 0\<close> the source computes
  \<^verbatim>\<open>Math.ceil(Infinity) * 0 + 0\<close> or \<^verbatim>\<open>Math.ceil(NaN) * 0 + 0\<close>, which is \<^verbatim>\<open>NaN\<close>.
  The quotient is taken in the reals and the product and the sum in the integers.
  The source computes in doubles, which give the same numbers as long as the data
  size is below \<open>2\<^sup>5\<^sup>2\<close>: the quotient then differs from the nearest integers by
  more than the rounding error of the division, and the product and the sum stay
  below \<open>2\<^sup>5\<^sup>3\<close>. The properties below are stated for data sizes below \<open>2\<^sup>3\<^sup>2\<close>;
  beyond \<open>2\<^sup>5\<^sup>2\<close> the definition is not the source.
\<close>

definition getOutputBufferSize :: "AesKeyAlgorithm \<Rightarrow> bool \<Rightarrow> nat \<Rightarrow> jsnumber" where
  "getOutputBufferSize keyAlg enc dataSize =
     (let len = js_shr (alg_length keyAlg) 3 in
      if enc then
        (if len = 0 then NaN
         else Number (\<lceil>real dataSize / real_of_int len\<rceil> * len + len))
      else Number (int dataSize))"

text \<open>The first continuation of \<^verbatim>\<open>encrypt\<close>: "add padding if needed".\<close>

definition add_padding :: "bool \<Rightarrow> byte list \<Rightarrow> byte list" where
  "add_padding pad_flag data =
     (if pad_flag then
        (let blockLength = 16;
             modv = blockLength - (length data mod blockLength);
             pad = replicate modv (of_nat modv)
         in data @ pad)
      else data)"

text \<open>
  The last continuation of \<^verbatim>\<open>decrypt\<close>: "Remove padding". On an empty buffer
  \<^verbatim>\<open>buf[buf.length - 1]\<close> is \<^verbatim>\<open>undefined\<close> and the end offset is \<^verbatim>\<open>NaN\<close>.
\<close>

definition remove_padding :: "bool \<Rightarrow> byte list \<Rightarrow> byte list" where
  "remove_padding pad_flag dec =
     (if pad_flag then
        (let buf = dec;
             endOffset = (if buf = [] then NaN
                          else Number (int (length buf) - uint (last buf)))
         in Buffer_slice buf (Number 0) endOffset)
      else dec)"

text \<open>
  \<^verbatim>\<open>encrypt\<close> and \<^verbatim>\<open>decrypt\<close> of a class. Both call \<^verbatim>\<open>this.wc2pk11(algorithm)\<close>
  with one argument, so the mapper's session is \<^verbatim>\<open>undefined\<close>. Both resolve
  \<^verbatim>\<open>data2.buffer\<close>, the whole \<^verbatim>\<open>ArrayBuffer\<close> behind the buffer that the session
  called back with; with the padding flag set, \<^verbatim>\<open>decrypt\<close> removes the padding from
  \<^verbatim>\<open>new Buffer(dec)\<close>, which is again that whole \<^verbatim>\<open>ArrayBuffer\<close>.
\<close>

definition encrypt ::
  "AesClass \<Rightarrow> 'obj Session \<Rightarrow> AesParams \<Rightarrow> 'obj CryptoKey \<Rightarrow> byte list \<Rightarrow> error + byte list" where
  "encrypt cls session algorithm key data =
     (let padded = add_padding (padding cls) data in
      case wc2pk11 cls algorithm (None :: 'obj Session option) of
        Inl e \<Rightarrow> Inl e
      | Inr mech \<Rightarrow>
          (case createCipher_once session mech (key_obj key) padded
                  (getOutputBufferSize (key_algorithm key) True (length padded)) of
             Inl err \<Rightarrow> Inl err
           | Inr data2 \<Rightarrow> Inr (buffer data2)))"

definition decrypt ::
  "AesClass \<Rightarrow> 'obj Session \<Rightarrow> AesParams \<Rightarrow> 'obj CryptoKey \<Rightarrow> byte list \<Rightarrow> error + byte list" where
  "decrypt cls session algorithm key data =
     (case wc2pk11 cls algorithm (None :: 'obj Session option) of
        Inl e \<Rightarrow> Inl e
      | Inr mech \<Rightarrow>
          (case createDecipher_once session mech (key_obj key) data
                  (getOutputBufferSize (key_algorithm key) False (length data)) of
             Inl err \<Rightarrow> Inl err
           | Inr data2 \<Rightarrow> Inr (remove_padding (padding cls) (buffer data2))))"

subsection \<open>A session for the examples\<close>

text \<open>
  The examples below need a concrete session. Its key objects are the key values:
  creating an object from a template succeeds when the template's value is a
  buffer and keeps its bytes; the attributes read back are a buffer of those
  bytes and their number. It generates no keys and its ciphers return the data
  unchanged. Every buffer it hands back has an \<^verbatim>\<open>ArrayBuffer\<close> of its own
  (\<open>whole\<close>).
\<close>

definition whole :: "byte list \<Rightarrow> Buffer" where
  "whole bs = \<lparr> buffer = bs, byteOffset = 0, buf_length = length bs \<rparr>"

definition store_session :: "(byte list) Session" where
  "store_session =
     \<lparr> cryptokiVersion = \<lparr> major = 2, minor = 40 \<rparr>,
       session_generateKey = (\<lambda>t. Inl ''CKR_FUNCTION_NOT_SUPPORTED''),
       session_create =
         (\<lambda>t. case t_value t of
                Some (Raw bs) \<Rightarrow> Inr bs
              | _ \<Rightarrow> Inl (Pkcs11Error ''CKR_TEMPLATE_INCONSISTENT'')),
       getAttribute = (\<lambda>bs. Inr \<lparr> attr_value = whole bs, attr_valueLen = int (length bs) \<rparr>),
       createCipher_once = (\<lambda>mech k data size. Inr (whole data)),
       createDecipher_once = (\<lambda>mech k data size. Inr (whole data)) \<rparr>"

section \<open>Padding\<close>

lemma last_append_replicate: "0 < m \<Longrightarrow> last (d @ replicate m x) = x"
  by (cases m) simp_all

lemma unat_pad_byte: "m \<le> 16 \<Longrightarrow> unat (of_nat m :: byte) = m"
  by (simp add: unat_of_nat)

lemma add_padding_True:
  "add_padding True data =
     data @ replicate (16 - length data mod 16) (of_nat (16 - length data mod 16))"
  unfolding add_padding_def Let_def by simp

lemma Buffer_slice_from_0:
  "Buffer_slice buf (Number 0) e = take (adjustOffset e (length buf)) buf"
  unfolding Buffer_slice_def Let_def adjustOffset_def by simp

lemma remove_padding_True:
  "buf \<noteq> [] \<Longrightarrow>
   remove_padding True buf =
     take (adjustOffset (Number (int (length buf) - int (unat (last buf)))) (length buf)) buf"
  unfolding remove_padding_def Let_def by (simp add: Buffer_slice_from_0)

lemma adjustOffset_difference:
  "adjustOffset (Number (int n - int p)) n = (if p \<le> n then n - p else 2 * n - p)"
  unfolding adjustOffset_def by (auto simp: nat_diff_distrib' split: if_splits)

lemma remove_padding_append:
  assumes "0 < m" and "m \<le> 16"
  shows "remove_padding True (d @ replicate m (of_nat m)) = d"
proof -
  have nonempty: "d @ replicate m (of_nat m :: byte) \<noteq> []"
    using assms by simp
  have last_byte: "last (d @ replicate m (of_nat m :: byte)) = of_nat m"
    using assms by (simp add: last_append_replicate)
  have offset: "adjustOffset (Number (int (length d))) (length d + m) = length d"
    using assms by (simp add: adjustOffset_def)
  show ?thesis
    unfolding remove_padding_True [OF nonempty] last_byte unat_pad_byte [OF assms(2)]
    using offset by simp
qed

text \<open>
  Claim C1. For every byte buffer \<open>d\<close>, removing the padding from the padded
  buffer gives \<open>d\<close> back: \<open>Unpad(Pad(d, 16)) = d\<close>.
\<close>

theorem unpad_pad_identity: "remove_padding True (add_padding True d) = d"
proof -
  have "0 < 16 - length d mod 16" and "16 - length d mod 16 \<le> 16"
    by simp_all
  then show ?thesis
    unfolding add_padding_True by (rule remove_padding_append)
qed

text \<open>
  Claim C2. With the padding flag set, the padding step appends exactly
  \<open>mod = 16 - (len mod 16)\<close> bytes, each holding the value \<open>mod\<close> (as a byte, without
  wrap-around); \<open>mod\<close> lies between 1 and 16, the padded length is a multiple of
  16, and a buffer whose length is already a multiple of 16 grows by a full block.
\<close>

theorem pad_appends_mod_bytes:
  "add_padding True data =
     data @ replicate (16 - length data mod 16) (of_nat (16 - length data mod 16))
   \<and> unat (of_nat (16 - length data mod 16) :: byte) = 16 - length data mod 16
   \<and> 1 \<le> 16 - length data mod 16
   \<and> 16 - length data mod 16 \<le> 16
   \<and> length (add_padding True data) mod 16 = 0
   \<and> (length data mod 16 = 0 \<longrightarrow> length (add_padding True data) = length data + 16)"
proof -
  define m where "m = 16 - length data mod 16"
  have m: "1 \<le> m" "m \<le> 16"
    by (simp_all add: m_def)
  have padded: "add_padding True data = data @ replicate m (of_nat m)"
    by (simp add: add_padding_True m_def)
  have aligned: "(length data + m) mod 16 = 0"
    unfolding m_def by presburger
  have full: "length data mod 16 = 0 \<longrightarrow> m = 16"
    by (simp add: m_def)
  show ?thesis
    unfolding m_def [symmetric] padded
    using m aligned full unat_pad_byte [OF m(2)] by simp
qed

theorem pad_appends_mod_bytes_witness:
  "length (replicate 32 (0 :: byte)) mod 16 = 0
   \<and> add_padding True (replicate 32 0) = replicate 32 0 @ replicate 16 16
   \<and> length (add_padding True (replicate 32 0)) = 48"
  using pad_appends_mod_bytes [of "replicate 32 0"] by simp

text \<open>
  Claim C3, as stated: the padding is removed by dropping the last \<open>p\<close> bytes,
  where \<open>p\<close> is the last byte. This fails when \<open>p\<close> exceeds the length of the
  buffer: the end offset \<open>length - p\<close> is negative, and \<^verbatim>\<open>Buffer.slice\<close> counts
  a negative offset from the end. A decrypted block of 16 bytes that ends in the
  byte 20 keeps its first 12 bytes, although dropping 20 bytes leaves nothing.
\<close>

theorem unpad_drops_last_bytes_counterexample:
  "remove_padding True [1, 2, 3, 4, 5, 6, 7, 8, 9, 10, 11, 12, 13, 14, 15, 20]
     = [1, 2, 3, 4, 5, 6, 7, 8, 9, 10, 11, 12]
   \<and> take (length [1, 2, 3, 4, 5, 6, 7, 8, 9, 10, 11, 12, 13, 14, 15, 20 :: byte]
            - unat (last [1, 2, 3, 4, 5, 6, 7, 8, 9, 10, 11, 12, 13, 14, 15, 20 :: byte]))
        [1, 2, 3, 4, 5, 6, 7, 8, 9, 10, 11, 12, 13, 14, 15, 20 :: byte]
     = []"
  by (simp add: remove_padding_def Buffer_slice_def adjustOffset_def)

text \<open>
  Claim C3, amended. With the padding flag set, the step reads the last byte
  \<open>p\<close> of a non-empty buffer and returns the buffer without its last \<open>p\<close> bytes
  when \<open>p\<close> is at most the length; when \<open>p\<close> exceeds the length it returns the
  first \<open>2 * length - p\<close> bytes (none when that is not positive); an empty buffer
  stays empty. Nothing but the length and the last byte is looked at: the bytes
  removed need not equal \<open>p\<close>, as the second part shows for \<open>p = 3\<close>.
\<close>

theorem unpad_reads_last_byte:
  "remove_padding True buf =
     (if buf = [] then []
      else if unat (last buf) \<le> length buf then take (length buf - unat (last buf)) buf
      else take (2 * length buf - unat (last buf)) buf)
   \<and> remove_padding True (xs @ [a, b, 3]) = xs"
proof -
  have general: "remove_padding True buf =
     (if buf = [] then []
      else if unat (last buf) \<le> length buf then take (length buf - unat (last buf)) buf
      else take (2 * length buf - unat (last buf)) buf)" for buf
  proof (cases "buf = []")
    case True
    then show ?thesis
      by (simp add: remove_padding_def Buffer_slice_from_0 adjustOffset_def)
  next
    case False
    show ?thesis
      unfolding remove_padding_True [OF False] adjustOffset_difference
      using False by simp
  qed
  have "remove_padding True (xs @ [a, b, 3]) = xs"
    unfolding general by simp
  with general show ?thesis by simp
qed

section \<open>Output buffer size\<close>

lemma js_shr_3: "0 \<le> L \<Longrightarrow> L < 2 ^ 31 \<Longrightarrow> js_shr (Number L) 3 = L div 8"
  unfolding js_shr_def ToInt32_def
  by (simp add: sint_signed_drop_bit_eq sint_sbintrunc' signed_take_bit_int_eq_self
      drop_bit_eq_div)

text \<open>
  Claim C4, as stated: for every bit length \<open>L\<close> the size for encryption is
  \<open>ceil(dataSize / len) * len + len\<close> with \<open>len = L / 8\<close>. The source takes
  \<^verbatim>\<open>len = L >> 3\<close>, which drops the remainder: for \<open>L = 129\<close> and 17 bytes of data
  it returns 48, where the formula with \<open>len = 129 / 8\<close> gives \<open>387 / 8\<close>. For
  \<open>L = 0\<close> (the length of an imported empty key) it returns \<^verbatim>\<open>NaN\<close>.
\<close>

theorem output_buffer_size_counterexample:
  "getOutputBufferSize \<lparr> alg_name = ''AES-CBC'', alg_length = Number 129 \<rparr> True 17 = Number 48
   \<and> real_of_int \<lceil>(17 :: real) / (129 / 8)\<rceil> * (129 / 8) + 129 / 8 = 387 / 8
   \<and> (387 / 8 :: real) \<noteq> 48
   \<and> getOutputBufferSize \<lparr> alg_name = ''AES-CBC'', alg_length = Number 0 \<rparr> True 20 = NaN"
proof -
  have quotient: "\<lceil>(17 :: real) / (129 / 8)\<rceil> = 2"
    by (rule ceiling_unique) simp_all
  have floor_len: "getOutputBufferSize \<lparr> alg_name = ''AES-CBC'', alg_length = Number 129 \<rparr>
      True 17 = Number 48"
    unfolding getOutputBufferSize_def Let_def by (simp add: js_shr_3)
  have zero_len: "getOutputBufferSize \<lparr> alg_name = ''AES-CBC'', alg_length = Number 0 \<rparr>
      True 20 = NaN"
    unfolding getOutputBufferSize_def Let_def by (simp add: js_shr_3)
  from floor_len zero_len show ?thesis
    unfolding quotient by simp
qed

text \<open>
  Claim C4, amended. For a key algorithm whose bit length \<open>L\<close> is at least 8 and
  below \<open>2\<^sup>3\<^sup>1\<close>, and every data size below \<open>2\<^sup>3\<^sup>2\<close>, the size for encryption is
  \<open>ceil(dataSize / len) * len + len\<close> with \<open>len = L div 8\<close> (\<^verbatim>\<open>L >> 3\<close>), the number
  of whole bytes of the key, which is \<open>L / 8\<close> when \<open>L\<close> is a multiple of 8; the
  size for decryption is the data size. A 128-bit key and 20 bytes of data give
  48.
\<close>

theorem output_buffer_size:
  assumes "8 \<le> L" and "L < 2 ^ 31" and "dataSize < 2 ^ 32"
  shows "getOutputBufferSize \<lparr> alg_name = n, alg_length = Number L \<rparr> True dataSize =
           Number (\<lceil>real dataSize / real_of_int (L div 8)\<rceil> * (L div 8) + L div 8)
         \<and> (8 dvd L \<longrightarrow> real_of_int (L div 8) = real_of_int L / 8)
         \<and> getOutputBufferSize \<lparr> alg_name = n, alg_length = Number L \<rparr> False dataSize =
             Number (int dataSize)
         \<and> getOutputBufferSize \<lparr> alg_name = n, alg_length = Number 128 \<rparr> True 20 = Number 48"
proof -
  from assms have len: "js_shr (Number L) 3 = L div 8" and pos: "L div 8 \<noteq> 0"
    by (simp_all add: js_shr_3)
  have enc: "getOutputBufferSize \<lparr> alg_name = n, alg_length = Number L \<rparr> True dataSize =
      Number (\<lceil>real dataSize / real_of_int (L div 8)\<rceil> * (L div 8) + L div 8)"
    unfolding getOutputBufferSize_def Let_def using len pos by simp
  have bytes: "8 dvd L \<longrightarrow> real_of_int (L div 8) = real_of_int L / 8"
    by (simp add: real_of_int_div)
  have dec: "getOutputBufferSize \<lparr> alg_name = n, alg_length = Number L \<rparr> False dataSize =
      Number (int dataSize)"
    unfolding getOutputBufferSize_def Let_def by simp
  have ex: "getOutputBufferSize \<lparr> alg_name = n, alg_length = Number 128 \<rparr> True 20 = Number 48"
    unfolding getOutputBufferSize_def Let_def by (simp add: js_shr_3)
  from enc bytes dec ex show ?thesis by simp
qed

theorem output_buffer_size_witness:
  "(8 :: int) \<le> 256 \<and> (256 :: int) < 2 ^ 31 \<and> (8 :: int) dvd 256 \<and> (20 :: nat) < 2 ^ 32
   \<and> getOutputBufferSize \<lparr> alg_name = ''AES-CBC'', alg_length = Number 256 \<rparr> True 20 = Number 64
   \<and> getOutputBufferSize \<lparr> alg_name = ''AES-CBC'', alg_length = Number 256 \<rparr> False 20 = Number 20"
  using output_buffer_size [of 256 20 "''AES-CBC''"] by simp

section \<open>The key template\<close>

lemma indexOf_from_found: "0 \<le> i \<Longrightarrow> (indexOf_from xs x i \<noteq> - 1) = (x \<in> set xs)"
proof (induction xs arbitrary: i)
  case Nil
  show ?case by simp
next
  case (Cons y ys)
  from Cons.prems have "0 \<le> i + 1" by simp
  from Cons.IH [OF this] Cons.prems show ?case by auto
qed

lemma indexOf_found: "(indexOf xs x \<noteq> - 1) = (x \<in> set xs)"
  unfolding indexOf_def by (rule indexOf_from_found) simp

text \<open>
  Claim C5. Each usage flag of the template is true exactly when its token
  (\<^verbatim>\<open>sign\<close>, \<^verbatim>\<open>verify\<close>, \<^verbatim>\<open>encrypt\<close>, \<^verbatim>\<open>decrypt\<close>, \<^verbatim>\<open>wrapKey\<close>, \<^verbatim>\<open>unwrapKey\<close>) is an
  element of the usage list, and the label is \<^verbatim>\<open>AES-\<close> followed by the bit length.
  For the algorithm AES-CBC of length 256 and the usages \<^verbatim>\<open>encrypt\<close> and
  \<^verbatim>\<open>decrypt\<close>, the label is \<^verbatim>\<open>AES-256\<close> and only these two flags are set.
\<close>

theorem create_template_usages:
  "t_sign (create_template env guid alg extractable keyUsages) = (''sign'' \<in> set keyUsages)
   \<and> t_verify (create_template env guid alg extractable keyUsages) = (''verify'' \<in> set keyUsages)
   \<and> t_encrypt (create_template env guid alg extractable keyUsages) = (''encrypt'' \<in> set keyUsages)
   \<and> t_decrypt (create_template env guid alg extractable keyUsages) = (''decrypt'' \<in> set keyUsages)
   \<and> t_wrap (create_template env guid alg extractable keyUsages) = (''wrapKey'' \<in> set keyUsages)
   \<and> t_unwrap (create_template env guid alg extractable keyUsages) = (''unwrapKey'' \<in> set keyUsages)
   \<and> t_label (create_template env guid alg extractable keyUsages) =
       ''AES-'' @ Number_toString (alg_length alg)
   \<and> create_template env guid \<lparr> alg_name = ''AES-CBC'', alg_length = Number 256 \<rparr> True
         [''encrypt'', ''decrypt''] =
       \<lparr> t_token = truthy (WEBCRYPTO_PKCS11_TOKEN env),
         t_sensitive = truthy (WEBCRYPTO_PKCS11_SENSITIVE env),
         t_class = SECRET_KEY, t_keyType = AES, t_label = ''AES-256'', t_id = guid,
         t_extractable = True, t_derive = False,
         t_sign = False, t_verify = False, t_encrypt = True, t_decrypt = True,
         t_wrap = False, t_unwrap = False, t_value = None, t_valueLen = None \<rparr>"
  unfolding create_template_def
  by (simp add: indexOf_found Number_toString_def string_of_nat.simps)

section \<open>The GCM mechanism mapper\<close>

text \<open>
  Claim C6 says that the newer parameter class is chosen exactly from version
  2.40 on, version 3.0 included. The source compares the two components
  separately, so for version 3.0 (minor 0) it keeps the older class, with any
  session.
\<close>

theorem gcm_params_version_3_0:
  "AesGcmParamsClass (Some (s \<lparr> cryptokiVersion := \<lparr> major = 3, minor = 0 \<rparr> \<rparr>)) = AesGcmParams"
  by (simp add: AesGcmParamsClass_def)

lemma gcm_params_newer_iff:
  "(AesGcmParamsClass (Some s) = AesGcm240Params) =
     (2 \<le> major (cryptokiVersion s) \<and> 40 \<le> minor (cryptokiVersion s))"
  by (simp add: AesGcmParamsClass_def)

section \<open>Base64url decoding inverts encoding\<close>

lemma indexOf_from_nth:
  "distinct xs \<Longrightarrow> n < length xs \<Longrightarrow> indexOf_from xs (xs ! n) i = i + int n"
proof (induction xs arbitrary: n i)
  case Nil
  then show ?case by simp
next
  case (Cons y ys)
  show ?case
  proof (cases n)
    case 0
    then show ?thesis by simp
  next
    case (Suc k)
    with Cons.prems have k: "k < length ys" and d: "distinct ys" and ny: "ys ! k \<noteq> y"
      by auto
    from Cons.IH [OF d k, of "i + 1"] ny Suc show ?thesis by simp
  qed
qed

lemma alphabet_distinct: "distinct base64url_alphabet"
  unfolding base64url_alphabet_def by simp

lemma alphabet_length: "length base64url_alphabet = 64"
  unfolding base64url_alphabet_def by simp

lemma sextet_of_char: "n < 64 \<Longrightarrow> sextet_of (sextet_char n) = Some n"
  unfolding sextet_of_def sextet_char_def indexOf_def Let_def
  by (simp add: indexOf_from_nth [OF alphabet_distinct] alphabet_length)

lemma divmod_join:
  fixes x y k :: nat
  assumes "y < k"
  shows "(x * k + y) div k = x" and "(x * k + y) mod k = y"
  using assms by simp_all

lemma unat_byte: "unat (x :: byte) < 256"
  using unsigned_less [of x, where ?'a = nat] by simp

lemma byte_div16: "unat (x :: byte) div 16 < 16"
  using unat_byte [of x] by (simp add: less_mult_imp_div_less)

lemma byte_div64: "unat (x :: byte) div 64 < 4"
  using unat_byte [of x] by (simp add: less_mult_imp_div_less)

lemma byte_div4: "unat (x :: byte) div 4 < 64"
  using unat_byte [of x] by (simp add: less_mult_imp_div_less)

lemma sextet_lt:
  fixes x y :: nat
  shows "y < 16 \<Longrightarrow> x mod 4 * 16 + y < 64" and "y < 4 \<Longrightarrow> x mod 16 * 4 + y < 64"
proof -
  have "x mod 4 \<le> 3" "x mod 16 \<le> 15" by arith+
  then have "x mod 4 * 16 \<le> 48" "x mod 16 * 4 \<le> 60" by simp_all
  then show "y < 16 \<Longrightarrow> x mod 4 * 16 + y < 64" and "y < 4 \<Longrightarrow> x mod 16 * 4 + y < 64"
    by simp_all
qed

lemma sextets_rejoin:
  fixes a b c :: nat
  assumes b: "b div 16 < 16" and c: "c div 64 < 4"
  shows "a div 4 * 4 + (a mod 4 * 16 + b div 16) div 16 = a"
    and "(a mod 4 * 16 + b div 16) mod 16 * 16 + (b mod 16 * 4 + c div 64) div 4 = b"
    and "(b mod 16 * 4 + c div 64) mod 4 * 64 + c mod 64 = c"
proof -
  have 1: "(a mod 4 * 16 + b div 16) div 16 = a mod 4"
    by (rule divmod_join(1) [OF b])
  have 2: "(a mod 4 * 16 + b div 16) mod 16 = b div 16"
    by (rule divmod_join(2) [OF b])
  have 3: "(b mod 16 * 4 + c div 64) div 4 = b mod 16"
    by (rule divmod_join(1) [OF c])
  have 4: "(b mod 16 * 4 + c div 64) mod 4 = c div 64"
    by (rule divmod_join(2) [OF c])
  show "a div 4 * 4 + (a mod 4 * 16 + b div 16) div 16 = a"
    unfolding 1 by simp
  show "(a mod 4 * 16 + b div 16) mod 16 * 16 + (b mod 16 * 4 + c div 64) div 4 = b"
    unfolding 2 3 by simp
  show "(b mod 16 * 4 + c div 64) mod 4 * 64 + c mod 64 = c"
    unfolding 4 by simp
qed

lemma byte_of_unat: "n = unat (x :: byte) \<Longrightarrow> of_nat n = x"
  by simp

lemma decode_group3:
  fixes a b c :: byte
  shows "of_nat (unat a div 4 * 4 + (unat a mod 4 * 16 + unat b div 16) div 16) = a"
    and "of_nat ((unat a mod 4 * 16 + unat b div 16) mod 16 * 16
                 + (unat b mod 16 * 4 + unat c div 64) div 4) = b"
    and "of_nat ((unat b mod 16 * 4 + unat c div 64) mod 4 * 64 + unat c mod 64) = c"
  by (rule byte_of_unat, rule sextets_rejoin [OF byte_div16 byte_div64])+

lemma decode_group2:
  fixes a b :: byte
  shows "of_nat ((unat a mod 4 * 16 + unat b div 16) mod 16 * 16 + unat b mod 16 * 4 div 4) = b"
  using sextets_rejoin(2) [OF byte_div16 [of b], of 0 "unat a"]
  by (intro byte_of_unat) simp

lemma decode_group1:
  fixes a :: byte
  shows "of_nat (unat a div 4 * 4 + unat a mod 4 * 16 div 16) = a"
  by (intro byte_of_unat) simp

lemma sextets_roundtrip:
  "\<exists>ss. sextets_of (Base64Url_encode bs) = Some ss \<and> bytes_of_sextets ss = Some bs"
proof (induction bs rule: Base64Url_encode.induct)
  case (1 a b c rest)
  then obtain ss where
    ss: "sextets_of (Base64Url_encode rest) = Some ss" "bytes_of_sextets ss = Some rest"
    by blast
  have s: "sextet_of (sextet_char (unat a div 4)) = Some (unat a div 4)"
    "sextet_of (sextet_char (unat a mod 4 * 16 + unat b div 16)) =
       Some (unat a mod 4 * 16 + unat b div 16)"
    "sextet_of (sextet_char (unat b mod 16 * 4 + unat c div 64)) =
       Some (unat b mod 16 * 4 + unat c div 64)"
    "sextet_of (sextet_char (unat c mod 64)) = Some (unat c mod 64)"
    by (simp_all add: sextet_of_char byte_div4 sextet_lt byte_div16 byte_div64)
  have enc: "sextets_of (Base64Url_encode (a # b # c # rest)) =
      Some (unat a div 4 # (unat a mod 4 * 16 + unat b div 16)
            # (unat b mod 16 * 4 + unat c div 64) # unat c mod 64 # ss)"
    by (simp only: Base64Url_encode.simps sextets_of.simps s ss option.case)
  have dec: "bytes_of_sextets (unat a div 4 # (unat a mod 4 * 16 + unat b div 16)
            # (unat b mod 16 * 4 + unat c div 64) # unat c mod 64 # ss) =
      Some (a # b # c # rest)"
    by (simp only: bytes_of_sextets.simps ss option.case decode_group3)
  show ?case using enc dec by blast
next
  case (2 a b)
  have s: "sextet_of (sextet_char (unat a div 4)) = Some (unat a div 4)"
    "sextet_of (sextet_char (unat a mod 4 * 16 + unat b div 16)) =
       Some (unat a mod 4 * 16 + unat b div 16)"
    "sextet_of (sextet_char (unat b mod 16 * 4)) = Some (unat b mod 16 * 4)"
    using sextet_lt(2) [of 0 "unat b"]
    by (simp_all add: sextet_of_char byte_div4 sextet_lt byte_div16)
  have enc: "sextets_of (Base64Url_encode [a, b]) =
      Some [unat a div 4, unat a mod 4 * 16 + unat b div 16, unat b mod 16 * 4]"
    by (simp only: Base64Url_encode.simps sextets_of.simps s option.case)
  have dec: "bytes_of_sextets
      [unat a div 4, unat a mod 4 * 16 + unat b div 16, unat b mod 16 * 4] = Some [a, b]"
    by (simp only: bytes_of_sextets.simps decode_group3(1) decode_group2)
  show ?case using enc dec by blast
next
  case (3 a)
  have s: "sextet_of (sextet_char (unat a div 4)) = Some (unat a div 4)"
    "sextet_of (sextet_char (unat a mod 4 * 16)) = Some (unat a mod 4 * 16)"
    using sextet_lt(1) [of 0 "unat a"]
    by (simp_all add: sextet_of_char byte_div4)
  have enc: "sextets_of (Base64Url_encode [a]) = Some [unat a div 4, unat a mod 4 * 16]"
    by (simp only: Base64Url_encode.simps sextets_of.simps s option.case)
  have dec: "bytes_of_sextets [unat a div 4, unat a mod 4 * 16] = Some [a]"
    by (simp only: bytes_of_sextets.simps decode_group1)
  show ?case using enc dec by blast
next
  case 4
  show ?case by simp
qed

lemma b64_decode_encode: "b64_decode (Some (Base64Url_encode bs)) = Inr bs"
  using sextets_roundtrip [of bs] unfolding b64_decode_def by auto

section \<open>The name pattern of export\<close>

lemma regex_match_here_iff:
  "(regex_match_here s \<noteq> None) = (\<exists>c rest. s = ''AES-'' @ c # rest \<and> is_word_char c)"
proof
  assume "regex_match_here s \<noteq> None"
  then have t: "take 4 s = ''AES-''" and w: "takeWhile is_word_char (drop 4 s) \<noteq> []"
    by (auto simp: regex_match_here_def split: if_splits)
  from w obtain c rest where d: "drop 4 s = c # rest" and c: "is_word_char c"
    by (cases "drop 4 s") (auto split: if_splits)
  have "s = take 4 s @ drop 4 s" by simp
  with t d have "s = ''AES-'' @ c # rest" by simp
  with c show "\<exists>c rest. s = ''AES-'' @ c # rest \<and> is_word_char c" by blast
next
  assume "\<exists>c rest. s = ''AES-'' @ c # rest \<and> is_word_char c"
  then obtain c rest where "s = ''AES-'' @ c # rest" "is_word_char c" by blast
  then show "regex_match_here s \<noteq> None" by (simp add: regex_match_here_def)
qed

lemma regex_exec_None_iff:
  "(regex_exec s = None) =
     (\<not> (\<exists>pre c rest. s = pre @ ''AES-'' @ c # rest \<and> is_word_char c))"
proof (induction s)
  case Nil
  show ?case by simp
next
  case (Cons x xs)
  have here: "(regex_match_here (x # xs) = None) =
      (\<not> (\<exists>c rest. x # xs = ''AES-'' @ c # rest \<and> is_word_char c))"
    using regex_match_here_iff [of "x # xs"] by blast
  have split: "(\<exists>pre c rest. x # xs = pre @ ''AES-'' @ c # rest \<and> is_word_char c) =
      ((\<exists>c rest. x # xs = ''AES-'' @ c # rest \<and> is_word_char c) \<or>
       (\<exists>pre c rest. xs = pre @ ''AES-'' @ c # rest \<and> is_word_char c))"
  proof
    assume "\<exists>pre c rest. x # xs = pre @ ''AES-'' @ c # rest \<and> is_word_char c"
    then obtain pre c rest where
      e: "x # xs = pre @ ''AES-'' @ c # rest" and c: "is_word_char c"
      by blast
    show "(\<exists>c rest. x # xs = ''AES-'' @ c # rest \<and> is_word_char c) \<or>
       (\<exists>pre c rest. xs = pre @ ''AES-'' @ c # rest \<and> is_word_char c)"
    proof (cases pre)
      case Nil
      with e c show ?thesis by auto
    next
      case (Cons p ps)
      with e have "xs = ps @ ''AES-'' @ c # rest" by simp
      with c show ?thesis by blast
    qed
  next
    assume "(\<exists>c rest. x # xs = ''AES-'' @ c # rest \<and> is_word_char c) \<or>
       (\<exists>pre c rest. xs = pre @ ''AES-'' @ c # rest \<and> is_word_char c)"
    then show "\<exists>pre c rest. x # xs = pre @ ''AES-'' @ c # rest \<and> is_word_char c"
    proof
      assume "\<exists>c rest. x # xs = ''AES-'' @ c # rest \<and> is_word_char c"
      then obtain c rest where "x # xs = [] @ ''AES-'' @ c # rest" "is_word_char c"
        by auto
      then show ?thesis by blast
    next
      assume "\<exists>pre c rest. xs = pre @ ''AES-'' @ c # rest \<and> is_word_char c"
      then obtain pre c rest where "xs = pre @ ''AES-'' @ c # rest" "is_word_char c"
        by blast
      then have "x # xs = (x # pre) @ ''AES-'' @ c # rest" by simp
      with \<open>is_word_char c\<close> show ?thesis by blast
    qed
  qed
  have "(regex_exec (x # xs) = None) =
      (regex_match_here (x # xs) = None \<and> regex_exec xs = None)"
    by (simp split: option.splits)
  then show ?case unfolding here Cons.IH split by blast
qed

lemma regex_match_here_Some:
  assumes "regex_match_here s = Some g"
  shows "\<exists>rest. s = ''AES-'' @ g @ rest \<and> g \<noteq> [] \<and> (\<forall>c\<in>set g. is_word_char c)
           \<and> (rest = [] \<or> \<not> is_word_char (hd rest))"
proof -
  from assms have t: "take 4 s = ''AES-''"
    and g: "g = takeWhile is_word_char (drop 4 s)" and ne: "g \<noteq> []"
    by (auto simp: regex_match_here_def split: if_splits)
  let ?rest = "dropWhile is_word_char (drop 4 s)"
  have "s = take 4 s @ takeWhile is_word_char (drop 4 s) @ ?rest"
    by simp
  with t g have s: "s = ''AES-'' @ g @ ?rest" by simp
  have w: "\<forall>c\<in>set g. is_word_char c"
    unfolding g by (auto dest: set_takeWhileD)
  have r: "?rest = [] \<or> \<not> is_word_char (hd ?rest)"
    using hd_dropWhile [of is_word_char "drop 4 s"] by blast
  from s ne w r show ?thesis by blast
qed

lemma regex_exec_Some:
  "regex_exec s = Some g \<Longrightarrow>
   \<exists>pre rest. s = pre @ ''AES-'' @ g @ rest \<and> g \<noteq> [] \<and> (\<forall>c\<in>set g. is_word_char c)
     \<and> (rest = [] \<or> \<not> is_word_char (hd rest))
     \<and> (\<forall>p c r. s = p @ ''AES-'' @ c # r \<and> is_word_char c \<longrightarrow> length pre \<le> length p)"
proof (induction s)
  case Nil
  then show ?case by simp
next
  case (Cons x xs)
  show ?case
  proof (cases "regex_match_here (x # xs)")
    case (Some g')
    with Cons.prems have "g' = g" by simp
    with Some regex_match_here_Some [of "x # xs" g] obtain rest where
      "x # xs = [] @ ''AES-'' @ g @ rest" "g \<noteq> []" "\<forall>c\<in>set g. is_word_char c"
      "rest = [] \<or> \<not> is_word_char (hd rest)"
      by auto
    moreover have "\<forall>p c r. x # xs = p @ ''AES-'' @ c # r \<and> is_word_char c \<longrightarrow>
        length ([] :: string) \<le> length p"
      by simp
    ultimately show ?thesis by blast
  next
    case None
    with Cons.prems have "regex_exec xs = Some g" by simp
    from Cons.IH [OF this] obtain pre rest where
      xs: "xs = pre @ ''AES-'' @ g @ rest" and g: "g \<noteq> []" "\<forall>c\<in>set g. is_word_char c"
      and r: "rest = [] \<or> \<not> is_word_char (hd rest)"
      and left: "\<forall>p c r. xs = p @ ''AES-'' @ c # r \<and> is_word_char c \<longrightarrow> length pre \<le> length p"
      by blast
    have "length (x # pre) \<le> length p"
      if split: "x # xs = p @ ''AES-'' @ c # r" and c: "is_word_char c" for p c r
    proof (cases p)
      case Nil
      with split c have "regex_match_here (x # xs) \<noteq> None"
        using regex_match_here_iff [of "x # xs"] by auto
      with None show ?thesis by simp
    next
      case (Cons y ys)
      with split have "xs = ys @ ''AES-'' @ c # r" by simp
      with left c have "length pre \<le> length ys" by blast
      with Cons show ?thesis by simp
    qed
    then have "\<forall>p c r. x # xs = p @ ''AES-'' @ c # r \<and> is_word_char c \<longrightarrow>
        length (x # pre) \<le> length p"
      by blast
    moreover from xs have "x # xs = (x # pre) @ ''AES-'' @ g @ rest" by simp
    ultimately show ?thesis using g r by blast
  qed
qed

section \<open>Export and import\<close>

lemma bytes_of_whole: "bytes_of (whole bs) = bs"
  by (simp add: bytes_of_def whole_def)

lemma buffer_whole: "buffer (whole bs) = bs"
  by (simp add: whole_def)

lemma toLowerCase_char_idem: "toLowerCase_char (toLowerCase_char c) = toLowerCase_char c"
  unfolding toLowerCase_char_def by simp

lemma toLowerCase_idem: "toLowerCase (toLowerCase f) = toLowerCase f"
  unfolding toLowerCase_def by (simp add: toLowerCase_char_idem)

lemma toLowerCase_literals:
  "toLowerCase ''jwk'' = ''jwk''" "toLowerCase ''raw'' = ''raw''"
  "toLowerCase ''JWK'' = ''jwk''" "toLowerCase ''RAW'' = ''raw''"
  "toLowerCase ''der'' = ''der''" "toLowerCase ''Der'' = ''der''"
  by (simp_all add: toLowerCase_def toLowerCase_char_def)

lemma exportKey_readable:
  assumes "getAttribute session (key_obj key) = Inr attrs"
  shows "exportKey session f key =
     (if toLowerCase f = ''jwk'' then
        (case regex_exec (alg_name (key_algorithm key)) of
           None \<Rightarrow> Inl TypeError
         | Some aes \<Rightarrow>
             Inr (Jwk \<lparr> jwk_kty = Some ''oct'',
                        jwk_k = Some (Base64Url_encode (bytes_of (attr_value attrs))),
                        jwk_alg = Some (''A'' @ Number_toString (Number (attr_valueLen attrs * 8)) @ aes),
                        jwk_ext = Some True \<rparr>))
      else if toLowerCase f = ''raw'' then Inr (Raw (buffer (attr_value attrs)))
      else Inl (WebCryptoError (''Unknown format '' @ [CHR 0x27] @ f @ [CHR 0x27])))"
  unfolding exportKey_def using assms by simp

lemma exportKey_jwk_Inr:
  assumes "exportKey session ''jwk'' key = Inr exported"
  shows "\<exists>attrs aes. getAttribute session (key_obj key) = Inr attrs \<and>
     exported =
       Jwk \<lparr> jwk_kty = Some ''oct'',
             jwk_k = Some (Base64Url_encode (bytes_of (attr_value attrs))),
             jwk_alg = Some (''A'' @ Number_toString (Number (attr_valueLen attrs * 8)) @ aes),
             jwk_ext = Some True \<rparr>"
  using assms unfolding exportKey_def
  by (auto simp: toLowerCase_literals split: sum.splits option.splits)

lemma exportKey_lower:
  "exportKey session f key = exportKey session (toLowerCase f) key
   \<or> (exportKey session f key =
         Inl (WebCryptoError (''Unknown format '' @ [CHR 0x27] @ f @ [CHR 0x27]))
      \<and> exportKey session (toLowerCase f) key =
           Inl (WebCryptoError (''Unknown format '' @ [CHR 0x27] @ toLowerCase f @ [CHR 0x27])))"
  unfolding exportKey_def toLowerCase_idem
  by (cases "getAttribute session (key_obj key)") simp_all

lemma importKey_other:
  "format \<noteq> ''jwk'' \<Longrightarrow>
   importKey env session guid format keyData name ext usages =
     (case session_create session
             ((create_template env guid
                 \<lparr> alg_name = name,
                   alg_length = (case keyData of
                                   Raw bs \<Rightarrow> Number (int (length bs) * 8)
                                 | Jwk j \<Rightarrow> NaN) \<rparr>
                 ext usages) \<lparr> t_value := Some keyData \<rparr>) of
        Inl e \<Rightarrow> Inl e
      | Inr obj \<Rightarrow>
          Inr \<lparr> key_obj = obj,
                key_algorithm =
                  \<lparr> alg_name = name,
                    alg_length = (case keyData of
                                    Raw bs \<Rightarrow> Number (int (length bs) * 8)
                                  | Jwk j \<Rightarrow> NaN) \<rparr> \<rparr>)"
  unfolding importKey_def Let_def by simp

lemma importKey_jwk:
  "importKey env session guid ''jwk'' keyData name ext usages =
     (case b64_decode (case keyData of Jwk j \<Rightarrow> jwk_k j | Raw bs \<Rightarrow> None) of
        Inl e \<Rightarrow> Inl e
      | Inr bs \<Rightarrow> importKey env session guid ''raw'' (Raw bs) name ext usages)"
  unfolding importKey_def Let_def by (simp split: sum.splits)

text \<open>
  Claim C7 says that both export and import reject a format that is neither
  \<^verbatim>\<open>jwk\<close> nor \<^verbatim>\<open>raw\<close>. Export does, with the error "Unknown format". Import has
  no such case: with the format \<^verbatim>\<open>der\<close> and a buffer of bytes it creates the key
  from the bytes and resolves.
\<close>

theorem import_der_resolves:
  "importKey env store_session guid ''der'' (Raw bs) name ext usages =
     Inr \<lparr> key_obj = bs,
           key_algorithm = \<lparr> alg_name = name, alg_length = Number (int (length bs) * 8) \<rparr> \<rparr>
   \<and> exportKey store_session ''der'' \<lparr> key_obj = bs, key_algorithm = alg \<rparr> =
       Inl (WebCryptoError (''Unknown format '' @ [CHR 0x27] @ ''der'' @ [CHR 0x27]))"
  by (simp add: importKey_other exportKey_def toLowerCase_literals store_session_def)

text \<open>
  Claim C8. When exporting a key with the format \<^verbatim>\<open>jwk\<close> gives a record, importing
  that record with the format \<^verbatim>\<open>jwk\<close> (into any session, with any name, flags and
  usages) creates the session object of the new key from a template whose value is
  the raw value of the exported key (the bytes of its value attribute), and whose
  bit length is eight times the length of that value: decoding never fails on what export encoded, and import
  fails only when the session refuses to create the object. When the session
  reads back from an object the value it was created with, the value read from
  the imported key is the value of the exported key.
\<close>

theorem jwk_export_import_roundtrip:
  assumes "exportKey session ''jwk'' key = Inr exported"
  shows "\<exists>attrs. getAttribute session (key_obj key) = Inr attrs \<and>
      importKey env session' guid ''jwk'' exported name ext usages =
        (case session_create session'
                ((create_template env guid
                    \<lparr> alg_name = name,
                      alg_length = Number (int (length (bytes_of (attr_value attrs))) * 8) \<rparr>
                    ext usages) \<lparr> t_value := Some (Raw (bytes_of (attr_value attrs))) \<rparr>) of
           Inl e \<Rightarrow> Inl e
         | Inr obj \<Rightarrow>
             Inr \<lparr> key_obj = obj,
                   key_algorithm =
                     \<lparr> alg_name = name,
                       alg_length = Number (int (length (bytes_of (attr_value attrs))) * 8) \<rparr> \<rparr>) \<and>
      ((\<forall>t obj. session_create session' t = Inr obj \<longrightarrow>
           (\<exists>a. getAttribute session' obj = Inr a
                \<and> t_value t = Some (Raw (bytes_of (attr_value a))))) \<longrightarrow>
       (\<forall>key'. importKey env session' guid ''jwk'' exported name ext usages = Inr key' \<longrightarrow>
           (\<exists>a'. getAttribute session' (key_obj key') = Inr a'
                 \<and> bytes_of (attr_value a') = bytes_of (attr_value attrs))))"
proof -
  from exportKey_jwk_Inr [OF assms] obtain attrs aes where
    a: "getAttribute session (key_obj key) = Inr attrs" and
    e: "exported =
       Jwk \<lparr> jwk_kty = Some ''oct'',
             jwk_k = Some (Base64Url_encode (bytes_of (attr_value attrs))),
             jwk_alg = Some (''A'' @ Number_toString (Number (attr_valueLen attrs * 8)) @ aes),
             jwk_ext = Some True \<rparr>"
    by blast
  let ?alg = "\<lparr> alg_name = name, alg_length = Number (int (length (bytes_of (attr_value attrs))) * 8) \<rparr>"
  let ?template = "(create_template env guid ?alg ext usages) \<lparr> t_value := Some (Raw (bytes_of (attr_value attrs))) \<rparr>"
  have "importKey env session' guid ''jwk'' exported name ext usages =
      importKey env session' guid ''raw'' (Raw (bytes_of (attr_value attrs))) name ext usages"
    unfolding importKey_jwk e by (simp add: b64_decode_encode)
  also have "\<dots> =
      (case session_create session' ?template of
         Inl e \<Rightarrow> Inl e
       | Inr obj \<Rightarrow> Inr \<lparr> key_obj = obj, key_algorithm = ?alg \<rparr>)"
    by (subst importKey_other) (simp_all split: sum.splits)
  finally have i: "importKey env session' guid ''jwk'' exported name ext usages =
      (case session_create session' ?template of
         Inl e \<Rightarrow> Inl e
       | Inr obj \<Rightarrow> Inr \<lparr> key_obj = obj, key_algorithm = ?alg \<rparr>)" .
  have r: "\<exists>a'. getAttribute session' (key_obj key') = Inr a' \<and> bytes_of (attr_value a') = bytes_of (attr_value attrs)"
    if keeps: "\<forall>t obj. session_create session' t = Inr obj \<longrightarrow>
           (\<exists>a. getAttribute session' obj = Inr a \<and> t_value t = Some (Raw (bytes_of (attr_value a))))"
      and imported: "importKey env session' guid ''jwk'' exported name ext usages = Inr key'"
    for key'
  proof -
    from imported i obtain obj where
      c: "session_create session' ?template = Inr obj" and k: "key_obj key' = obj"
      by (cases "session_create session' ?template") auto
    from keeps c obtain a' where
      "getAttribute session' obj = Inr a'" "t_value ?template = Some (Raw (bytes_of (attr_value a')))"
      by blast
    then show ?thesis using k by simp
  qed
  from a i r show ?thesis by blast
qed

theorem jwk_export_import_roundtrip_witness:
  "exportKey store_session ''jwk''
      \<lparr> key_obj = [1, 2, 3, 4, 5, 6, 7, 8, 9, 10, 11, 12, 13, 14, 15, 16],
        key_algorithm = \<lparr> alg_name = ''AES-CBC'', alg_length = Number 128 \<rparr> \<rparr> =
     Inr (Jwk \<lparr> jwk_kty = Some ''oct'', jwk_k = Some ''AQIDBAUGBwgJCgsMDQ4PEA'',
                jwk_alg = Some ''A128CBC'', jwk_ext = Some True \<rparr>)
   \<and> importKey \<lparr> WEBCRYPTO_PKCS11_TOKEN = None, WEBCRYPTO_PKCS11_SENSITIVE = None \<rparr>
        store_session [7] ''jwk''
        (Jwk \<lparr> jwk_kty = Some ''oct'', jwk_k = Some ''AQIDBAUGBwgJCgsMDQ4PEA'',
                jwk_alg = Some ''A128CBC'', jwk_ext = Some True \<rparr>)
        ''AES-CBC'' True [''encrypt''] =
     Inr \<lparr> key_obj = [1, 2, 3, 4, 5, 6, 7, 8, 9, 10, 11, 12, 13, 14, 15, 16],
           key_algorithm = \<lparr> alg_name = ''AES-CBC'', alg_length = Number 128 \<rparr> \<rparr>
   \<and> getAttribute store_session [1, 2, 3, 4, 5, 6, 7, 8, 9, 10, 11, 12, 13, 14, 15, 16] =
     Inr \<lparr> attr_value = whole [1, 2, 3, 4, 5, 6, 7, 8, 9, 10, 11, 12, 13, 14, 15, 16],
           attr_valueLen = 16 \<rparr>
   \<and> bytes_of (whole [1, 2, 3, 4, 5, 6, 7, 8, 9, 10, 11, 12, 13, 14, 15, 16]) =
     [1, 2, 3, 4, 5, 6, 7, 8, 9, 10, 11, 12, 13, 14, 15, 16]"
proof -
  let ?key = "\<lparr> key_obj = [1, 2, 3, 4, 5, 6, 7, 8, 9, 10, 11, 12, 13, 14, 15, 16 :: byte],
        key_algorithm = \<lparr> alg_name = ''AES-CBC'', alg_length = Number 128 \<rparr> \<rparr>"
  let ?jwk = "Jwk \<lparr> jwk_kty = Some ''oct'', jwk_k = Some ''AQIDBAUGBwgJCgsMDQ4PEA'',
                jwk_alg = Some ''A128CBC'', jwk_ext = Some True \<rparr>"
  let ?env = "\<lparr> WEBCRYPTO_PKCS11_TOKEN = None, WEBCRYPTO_PKCS11_SENSITIVE = None \<rparr>"
  have e: "exportKey store_session ''jwk'' ?key = Inr ?jwk"
    by (simp add: exportKey_def toLowerCase_literals store_session_def regex_match_here_def
        is_word_char_def sextet_char_def base64url_alphabet_def Number_toString_def
        string_of_nat.simps bytes_of_whole)
  have keeps: "\<forall>t obj. session_create store_session t = Inr obj \<longrightarrow>
      (\<exists>a. getAttribute store_session obj = Inr a \<and> t_value t = Some (Raw (bytes_of (attr_value a))))"
    by (auto simp: store_session_def bytes_of_whole split: option.splits KeyData.splits)
  from jwk_export_import_roundtrip [OF e, of ?env store_session "[7]" "''AES-CBC''" True "[''encrypt'']"]
  obtain attrs where
    a: "getAttribute store_session (key_obj ?key) = Inr attrs" and
    i: "importKey ?env store_session [7] ''jwk'' ?jwk ''AES-CBC'' True [''encrypt''] =
        (case session_create store_session
                ((create_template ?env [7]
                    \<lparr> alg_name = ''AES-CBC'',
                      alg_length = Number (int (length (bytes_of (attr_value attrs))) * 8) \<rparr>
                    True [''encrypt'']) \<lparr> t_value := Some (Raw (bytes_of (attr_value attrs))) \<rparr>) of
           Inl e \<Rightarrow> Inl e
         | Inr obj \<Rightarrow>
             Inr \<lparr> key_obj = obj,
                   key_algorithm =
                     \<lparr> alg_name = ''AES-CBC'',
                       alg_length = Number (int (length (bytes_of (attr_value attrs))) * 8) \<rparr> \<rparr>)" and
    r: "\<forall>key'. importKey ?env store_session [7] ''jwk'' ?jwk ''AES-CBC'' True [''encrypt''] = Inr key' \<longrightarrow>
           (\<exists>a'. getAttribute store_session (key_obj key') = Inr a' \<and> bytes_of (attr_value a') = bytes_of (attr_value attrs))"
    using keeps by blast
  from a have attrs: "attrs = \<lparr> attr_value = whole [1, 2, 3, 4, 5, 6, 7, 8, 9, 10, 11, 12, 13, 14, 15, 16],
           attr_valueLen = 16 \<rparr>"
    by (simp add: store_session_def)
  from i have imported: "importKey ?env store_session [7] ''jwk'' ?jwk ''AES-CBC'' True [''encrypt''] =
     Inr ?key"
    unfolding attrs by (simp add: store_session_def bytes_of_whole)
  from r imported have "\<exists>a'. getAttribute store_session (key_obj ?key) = Inr a' \<and> bytes_of (attr_value a') = bytes_of (attr_value attrs)"
    by blast
  with e imported a attrs show ?thesis by (simp add: bytes_of_whole)
qed

text \<open>
  Claim C9, as stated: for a key whose algorithm name is not of the form
  \<^verbatim>\<open>AES-<MODE>\<close>, export with the format \<^verbatim>\<open>jwk\<close> fails with a dedicated error and
  neither completes nor fails with an unrelated one. The source has no such
  error. For the name \<^verbatim>\<open>HMAC\<close> the pattern has no match and indexing the
  \<^verbatim>\<open>null\<close> result is the runtime's \<^verbatim>\<open>TypeError\<close>; for the name \<^verbatim>\<open>XAES-CBC\<close> the
  pattern, which is not anchored, matches inside the name and export completes.
\<close>

theorem export_malformed_name_counterexample:
  "exportKey store_session ''jwk''
      \<lparr> key_obj = [1, 2, 3, 4, 5, 6, 7, 8, 9, 10, 11, 12, 13, 14, 15, 16],
        key_algorithm = \<lparr> alg_name = ''HMAC'', alg_length = Number 128 \<rparr> \<rparr> =
     Inl TypeError
   \<and> exportKey store_session ''jwk''
      \<lparr> key_obj = [1, 2, 3, 4, 5, 6, 7, 8, 9, 10, 11, 12, 13, 14, 15, 16],
        key_algorithm = \<lparr> alg_name = ''XAES-CBC'', alg_length = Number 128 \<rparr> \<rparr> =
     Inr (Jwk \<lparr> jwk_kty = Some ''oct'', jwk_k = Some ''AQIDBAUGBwgJCgsMDQ4PEA'',
                jwk_alg = Some ''A128CBC'', jwk_ext = Some True \<rparr>)"
  by (simp add: exportKey_def toLowerCase_literals store_session_def regex_match_here_def
      is_word_char_def sextet_char_def base64url_alphabet_def Number_toString_def
      string_of_nat.simps bytes_of_whole)

text \<open>
  Claim C9, amended. For a key whose attributes can be read, export with the
  format \<^verbatim>\<open>jwk\<close> fails with the runtime's \<^verbatim>\<open>TypeError\<close> exactly when the algorithm
  name contains no occurrence of \<^verbatim>\<open>AES-\<close> followed by a word character, and it
  resolves with a JSON Web Key exactly when the name contains such an occurrence,
  wherever in the name it stands. In that case the name is \<open>pre @ AES- @ aes @ rest\<close>,
  where \<open>pre\<close> ends before the leftmost such occurrence and \<open>aes\<close> is the longest
  run of word characters after it (not empty, and \<open>rest\<close> does not go on with a
  word character), and the record resolved has the key type \<^verbatim>\<open>oct\<close>, the encoded
  bytes of the value, the flag \<^verbatim>\<open>ext\<close> set, and the algorithm tag \<^verbatim>\<open>A\<close>, then
  eight times the value length attribute, then \<open>aes\<close> as the mode suffix.
\<close>

theorem export_jwk_name_pattern:
  assumes "getAttribute session (key_obj key) = Inr attrs"
  shows "(exportKey session ''jwk'' key = Inl TypeError) =
           (\<not> (\<exists>pre c rest. alg_name (key_algorithm key) = pre @ ''AES-'' @ c # rest
                              \<and> is_word_char c))
         \<and> (\<exists>j. exportKey session ''jwk'' key = Inr (Jwk j)) =
           (\<exists>pre c rest. alg_name (key_algorithm key) = pre @ ''AES-'' @ c # rest
                          \<and> is_word_char c)
         \<and> ((\<exists>pre c rest. alg_name (key_algorithm key) = pre @ ''AES-'' @ c # rest
                          \<and> is_word_char c) \<longrightarrow>
            (\<exists>pre aes rest.
                alg_name (key_algorithm key) = pre @ ''AES-'' @ aes @ rest
                \<and> aes \<noteq> []
                \<and> (\<forall>c\<in>set aes. is_word_char c)
                \<and> (rest = [] \<or> \<not> is_word_char (hd rest))
                \<and> (\<forall>p c r. alg_name (key_algorithm key) = p @ ''AES-'' @ c # r
                             \<and> is_word_char c \<longrightarrow> length pre \<le> length p)
                \<and> exportKey session ''jwk'' key =
                    Inr (Jwk \<lparr> jwk_kty = Some ''oct'',
                               jwk_k = Some (Base64Url_encode (bytes_of (attr_value attrs))),
                               jwk_alg = Some (''A''
                                 @ Number_toString (Number (attr_valueLen attrs * 8)) @ aes),
                               jwk_ext = Some True \<rparr>)))"
proof (cases "regex_exec (alg_name (key_algorithm key))")
  case None
  then have no: "\<not> (\<exists>pre c rest. alg_name (key_algorithm key) = pre @ ''AES-'' @ c # rest
                                  \<and> is_word_char c)"
    using regex_exec_None_iff [of "alg_name (key_algorithm key)"] by blast
  have "exportKey session ''jwk'' key = Inl TypeError"
    unfolding exportKey_readable [OF assms] using None by (simp add: toLowerCase_literals)
  with no show ?thesis by simp
next
  case (Some aes)
  then have yes: "\<exists>pre c rest. alg_name (key_algorithm key) = pre @ ''AES-'' @ c # rest
                                \<and> is_word_char c"
    using regex_exec_None_iff [of "alg_name (key_algorithm key)"] by simp
  have exported: "exportKey session ''jwk'' key =
      Inr (Jwk \<lparr> jwk_kty = Some ''oct'',
                 jwk_k = Some (Base64Url_encode (bytes_of (attr_value attrs))),
                 jwk_alg = Some (''A''
                   @ Number_toString (Number (attr_valueLen attrs * 8)) @ aes),
                 jwk_ext = Some True \<rparr>)"
    unfolding exportKey_readable [OF assms] using Some by (simp add: toLowerCase_literals)
  from regex_exec_Some [OF Some] obtain pre rest where
    "alg_name (key_algorithm key) = pre @ ''AES-'' @ aes @ rest" "aes \<noteq> []"
    "\<forall>c\<in>set aes. is_word_char c" "rest = [] \<or> \<not> is_word_char (hd rest)"
    "\<forall>p c r. alg_name (key_algorithm key) = p @ ''AES-'' @ c # r \<and> is_word_char c
       \<longrightarrow> length pre \<le> length p"
    by blast
  with exported have group: "\<exists>pre aes rest.
      alg_name (key_algorithm key) = pre @ ''AES-'' @ aes @ rest
      \<and> aes \<noteq> []
      \<and> (\<forall>c\<in>set aes. is_word_char c)
      \<and> (rest = [] \<or> \<not> is_word_char (hd rest))
      \<and> (\<forall>p c r. alg_name (key_algorithm key) = p @ ''AES-'' @ c # r
                   \<and> is_word_char c \<longrightarrow> length pre \<le> length p)
      \<and> exportKey session ''jwk'' key =
          Inr (Jwk \<lparr> jwk_kty = Some ''oct'',
                     jwk_k = Some (Base64Url_encode (bytes_of (attr_value attrs))),
                     jwk_alg = Some (''A''
                       @ Number_toString (Number (attr_valueLen attrs * 8)) @ aes),
                     jwk_ext = Some True \<rparr>)"
    by blast
  from exported have "\<exists>j. exportKey session ''jwk'' key = Inr (Jwk j)"
    by simp
  with yes group show ?thesis by auto
qed

theorem export_jwk_name_pattern_witness:
  "getAttribute store_session [1, 2, 3] =
     Inr \<lparr> attr_value = whole [1, 2, 3], attr_valueLen = 3 \<rparr>
   \<and> exportKey store_session ''jwk''
        \<lparr> key_obj = [1, 2, 3],
          key_algorithm = \<lparr> alg_name = ''HMAC'', alg_length = Number 24 \<rparr> \<rparr> =
       Inl TypeError
   \<and> \<not> (\<exists>pre c rest. ''HMAC'' = pre @ ''AES-'' @ c # rest \<and> is_word_char c)
   \<and> ''my-AES-GCM_1!x'' = ''my-'' @ ''AES-'' @ CHR ''G'' # ''CM_1!x''
   \<and> is_word_char CHR ''G''
   \<and> exportKey store_session ''jwk''
        \<lparr> key_obj = [1, 2, 3],
          key_algorithm = \<lparr> alg_name = ''my-AES-GCM_1!x'', alg_length = Number 24 \<rparr> \<rparr> =
       Inr (Jwk \<lparr> jwk_kty = Some ''oct'', jwk_k = Some ''AQID'',
                  jwk_alg = Some ''A24GCM_1'', jwk_ext = Some True \<rparr>)"
proof -
  let ?hmac = "\<lparr> key_obj = [1, 2, 3 :: byte],
      key_algorithm = \<lparr> alg_name = ''HMAC'', alg_length = Number 24 \<rparr> \<rparr>"
  let ?gcm = "\<lparr> key_obj = [1, 2, 3 :: byte],
      key_algorithm = \<lparr> alg_name = ''my-AES-GCM_1!x'', alg_length = Number 24 \<rparr> \<rparr>"
  have a: "getAttribute store_session (key_obj ?hmac) =
      Inr \<lparr> attr_value = whole [1, 2, 3], attr_valueLen = 3 \<rparr>"
    by (simp add: store_session_def)
  have a': "getAttribute store_session (key_obj ?gcm) =
      Inr \<lparr> attr_value = whole [1, 2, 3], attr_valueLen = 3 \<rparr>"
    by (simp add: store_session_def)
  have e: "exportKey store_session ''jwk'' ?hmac = Inl TypeError"
    by (simp add: exportKey_def toLowerCase_literals store_session_def regex_match_here_def)
  have w: "is_word_char CHR ''G''"
    by (simp add: is_word_char_def)
  then have occ: "\<exists>pre c rest. alg_name (key_algorithm ?gcm) = pre @ ''AES-'' @ c # rest
      \<and> is_word_char c"
    by (intro exI [of _ "''my-''"] exI [of _ "CHR ''G''"] exI [of _ "''CM_1!x''"]) simp
  from export_jwk_name_pattern [OF a'] occ
  have "\<exists>j. exportKey store_session ''jwk'' ?gcm = Inr (Jwk j)"
    by blast
  moreover have "exportKey store_session ''jwk'' ?gcm =
      Inr (Jwk \<lparr> jwk_kty = Some ''oct'', jwk_k = Some ''AQID'',
                 jwk_alg = Some ''A24GCM_1'', jwk_ext = Some True \<rparr>)"
    by (simp add: exportKey_def toLowerCase_literals store_session_def regex_match_here_def
        is_word_char_def sextet_char_def base64url_alphabet_def Number_toString_def
        string_of_nat.simps bytes_of_whole)
  ultimately show ?thesis
    using export_jwk_name_pattern [OF a] e a w by simp
qed

text \<open>
  Claim C10. Export looks at the lowercase form of the format: its outcome on
  \<open>f\<close> is its outcome on the lowercase form of \<open>f\<close>, except that when both are
  rejected each message quotes the format it was given. For a key whose
  attributes can be read, a format whose lowercase form is \<^verbatim>\<open>raw\<close> (such as
  \<^verbatim>\<open>RAW\<close>) resolves with the \<^verbatim>\<open>ArrayBuffer\<close> of the value, one whose lowercase
  form is \<^verbatim>\<open>jwk\<close> (such as \<^verbatim>\<open>JWK\<close>) takes the JSON Web Key path, and every other
  format is rejected as unknown. Import decodes the JSON Web Key only for the
  format \<^verbatim>\<open>jwk\<close> exactly: with any other format, \<^verbatim>\<open>JWK\<close> included, the key data
  itself becomes the value of the template.
\<close>

theorem format_case_sensitivity:
  "(exportKey session f key = exportKey session (toLowerCase f) key
      \<or> (exportKey session f key =
            Inl (WebCryptoError (''Unknown format '' @ [CHR 0x27] @ f @ [CHR 0x27]))
         \<and> exportKey session (toLowerCase f) key =
              Inl (WebCryptoError (''Unknown format '' @ [CHR 0x27] @ toLowerCase f @ [CHR 0x27]))))
   \<and> exportKey session ''JWK'' key = exportKey session ''jwk'' key
   \<and> exportKey session ''RAW'' key = exportKey session ''raw'' key
   \<and> (getAttribute session (key_obj key) = Inr attrs \<longrightarrow>
        (toLowerCase f = ''raw'' \<longrightarrow>
           exportKey session f key = Inr (Raw (buffer (attr_value attrs))))
      \<and> (toLowerCase f = ''jwk'' \<longrightarrow>
           exportKey session f key =
             (case regex_exec (alg_name (key_algorithm key)) of
                None \<Rightarrow> Inl TypeError
              | Some aes \<Rightarrow>
                  Inr (Jwk \<lparr> jwk_kty = Some ''oct'',
                             jwk_k = Some (Base64Url_encode (bytes_of (attr_value attrs))),
                             jwk_alg = Some (''A''
                               @ Number_toString (Number (attr_valueLen attrs * 8)) @ aes),
                             jwk_ext = Some True \<rparr>)))
      \<and> (toLowerCase f \<noteq> ''jwk'' \<and> toLowerCase f \<noteq> ''raw'' \<longrightarrow>
           exportKey session f key =
             Inl (WebCryptoError (''Unknown format '' @ [CHR 0x27] @ f @ [CHR 0x27])))
      \<and> exportKey session ''RAW'' key = Inr (Raw (buffer (attr_value attrs)))
      \<and> exportKey session ''JWK'' key =
           (case regex_exec (alg_name (key_algorithm key)) of
              None \<Rightarrow> Inl TypeError
            | Some aes \<Rightarrow>
                Inr (Jwk \<lparr> jwk_kty = Some ''oct'',
                           jwk_k = Some (Base64Url_encode (bytes_of (attr_value attrs))),
                           jwk_alg = Some (''A''
                             @ Number_toString (Number (attr_valueLen attrs * 8)) @ aes),
                           jwk_ext = Some True \<rparr>)))
   \<and> (f \<noteq> ''jwk'' \<longrightarrow>
        importKey env session' guid f keyData name ext usages =
          (case session_create session'
                  ((create_template env guid
                      \<lparr> alg_name = name,
                        alg_length = (case keyData of
                                        Raw bs \<Rightarrow> Number (int (length bs) * 8)
                                      | Jwk j \<Rightarrow> NaN) \<rparr>
                      ext usages) \<lparr> t_value := Some keyData \<rparr>) of
             Inl e \<Rightarrow> Inl e
           | Inr obj \<Rightarrow>
               Inr \<lparr> key_obj = obj,
                     key_algorithm =
                       \<lparr> alg_name = name,
                         alg_length = (case keyData of
                                         Raw bs \<Rightarrow> Number (int (length bs) * 8)
                                       | Jwk j \<Rightarrow> NaN) \<rparr> \<rparr>))
   \<and> importKey env session' guid ''JWK'' keyData name ext usages =
       importKey env session' guid ''raw'' keyData name ext usages
   \<and> importKey env session' guid ''jwk'' keyData name ext usages =
       (case b64_decode (case keyData of Jwk j \<Rightarrow> jwk_k j | Raw bs \<Rightarrow> None) of
          Inl e \<Rightarrow> Inl e
        | Inr bs \<Rightarrow> importKey env session' guid ''raw'' (Raw bs) name ext usages)"
proof -
  have upper: "exportKey session ''JWK'' key = exportKey session ''jwk'' key"
    "exportKey session ''RAW'' key = exportKey session ''raw'' key"
    unfolding exportKey_def toLowerCase_literals
    by (simp_all split: sum.splits)
  have readable: "getAttribute session (key_obj key) = Inr attrs \<longrightarrow>
        (toLowerCase f = ''raw'' \<longrightarrow>
           exportKey session f key = Inr (Raw (buffer (attr_value attrs))))
      \<and> (toLowerCase f = ''jwk'' \<longrightarrow>
           exportKey session f key =
             (case regex_exec (alg_name (key_algorithm key)) of
                None \<Rightarrow> Inl TypeError
              | Some aes \<Rightarrow>
                  Inr (Jwk \<lparr> jwk_kty = Some ''oct'',
                             jwk_k = Some (Base64Url_encode (bytes_of (attr_value attrs))),
                             jwk_alg = Some (''A''
                               @ Number_toString (Number (attr_valueLen attrs * 8)) @ aes),
                             jwk_ext = Some True \<rparr>)))
      \<and> (toLowerCase f \<noteq> ''jwk'' \<and> toLowerCase f \<noteq> ''raw'' \<longrightarrow>
           exportKey session f key =
             Inl (WebCryptoError (''Unknown format '' @ [CHR 0x27] @ f @ [CHR 0x27])))
      \<and> exportKey session ''RAW'' key = Inr (Raw (buffer (attr_value attrs)))
      \<and> exportKey session ''JWK'' key =
           (case regex_exec (alg_name (key_algorithm key)) of
              None \<Rightarrow> Inl TypeError
            | Some aes \<Rightarrow>
                Inr (Jwk \<lparr> jwk_kty = Some ''oct'',
                           jwk_k = Some (Base64Url_encode (bytes_of (attr_value attrs))),
                           jwk_alg = Some (''A''
                             @ Number_toString (Number (attr_valueLen attrs * 8)) @ aes),
                           jwk_ext = Some True \<rparr>))"
  proof
    assume a: "getAttribute session (key_obj key) = Inr attrs"
    show "(toLowerCase f = ''raw'' \<longrightarrow>
           exportKey session f key = Inr (Raw (buffer (attr_value attrs))))
      \<and> (toLowerCase f = ''jwk'' \<longrightarrow>
           exportKey session f key =
             (case regex_exec (alg_name (key_algorithm key)) of
                None \<Rightarrow> Inl TypeError
              | Some aes \<Rightarrow>
                  Inr (Jwk \<lparr> jwk_kty = Some ''oct'',
                             jwk_k = Some (Base64Url_encode (bytes_of (attr_value attrs))),
                             jwk_alg = Some (''A''
                               @ Number_toString (Number (attr_valueLen attrs * 8)) @ aes),
                             jwk_ext = Some True \<rparr>)))
      \<and> (toLowerCase f \<noteq> ''jwk'' \<and> toLowerCase f \<noteq> ''raw'' \<longrightarrow>
           exportKey session f key =
             Inl (WebCryptoError (''Unknown format '' @ [CHR 0x27] @ f @ [CHR 0x27])))
      \<and> exportKey session ''RAW'' key = Inr (Raw (buffer (attr_value attrs)))
      \<and> exportKey session ''JWK'' key =
           (case regex_exec (alg_name (key_algorithm key)) of
              None \<Rightarrow> Inl TypeError
            | Some aes \<Rightarrow>
                Inr (Jwk \<lparr> jwk_kty = Some ''oct'',
                           jwk_k = Some (Base64Url_encode (bytes_of (attr_value attrs))),
                           jwk_alg = Some (''A''
                             @ Number_toString (Number (attr_valueLen attrs * 8)) @ aes),
                           jwk_ext = Some True \<rparr>))"
      unfolding exportKey_readable [OF a] by (simp add: toLowerCase_literals)
  qed
  have other: "importKey env session' guid ''JWK'' keyData name ext usages =
       importKey env session' guid ''raw'' keyData name ext usages"
    by (simp add: importKey_other)
  show ?thesis
    using exportKey_lower [of session f key] upper readable other
      importKey_other [of f env session' guid keyData name ext usages]
      importKey_jwk [of env session' guid keyData name ext usages]
    by blast
qed

theorem format_case_sensitivity_witness:
  "getAttribute store_session [1, 2, 3] =
     Inr \<lparr> attr_value = whole [1, 2, 3], attr_valueLen = 3 \<rparr>
   \<and> toLowerCase ''RAW'' = ''raw''
   \<and> exportKey store_session ''RAW''
        \<lparr> key_obj = [1, 2, 3],
          key_algorithm = \<lparr> alg_name = ''AES-CBC'', alg_length = Number 24 \<rparr> \<rparr> =
       Inr (Raw [1, 2, 3])
   \<and> exportKey store_session ''JWK''
        \<lparr> key_obj = [1, 2, 3],
          key_algorithm = \<lparr> alg_name = ''AES-CBC'', alg_length = Number 24 \<rparr> \<rparr> =
       Inr (Jwk \<lparr> jwk_kty = Some ''oct'', jwk_k = Some ''AQID'', jwk_alg = Some ''A24CBC'',
                  jwk_ext = Some True \<rparr>)
   \<and> exportKey store_session ''Der''
        \<lparr> key_obj = [1, 2, 3],
          key_algorithm = \<lparr> alg_name = ''AES-CBC'', alg_length = Number 24 \<rparr> \<rparr> =
       Inl (WebCryptoError (''Unknown format '' @ [CHR 0x27] @ ''Der'' @ [CHR 0x27]))
   \<and> ''JWK'' \<noteq> ''jwk''
   \<and> importKey \<lparr> WEBCRYPTO_PKCS11_TOKEN = None, WEBCRYPTO_PKCS11_SENSITIVE = None \<rparr>
        store_session [7] ''JWK'' (Raw [1, 2, 3]) ''AES-CBC'' True [] =
       Inr \<lparr> key_obj = [1, 2, 3],
             key_algorithm = \<lparr> alg_name = ''AES-CBC'', alg_length = Number 24 \<rparr> \<rparr>
   \<and> importKey \<lparr> WEBCRYPTO_PKCS11_TOKEN = None, WEBCRYPTO_PKCS11_SENSITIVE = None \<rparr>
        store_session [7] ''JWK''
        (Jwk \<lparr> jwk_kty = Some ''oct'', jwk_k = Some ''AQID'', jwk_alg = Some ''A24CBC'',
               jwk_ext = Some True \<rparr>)
        ''AES-CBC'' True [] =
       Inl (Pkcs11Error ''CKR_TEMPLATE_INCONSISTENT'')"
proof -
  let ?key = "\<lparr> key_obj = [1, 2, 3 :: byte],
      key_algorithm = \<lparr> alg_name = ''AES-CBC'', alg_length = Number 24 \<rparr> \<rparr>"
  let ?env = "\<lparr> WEBCRYPTO_PKCS11_TOKEN = None, WEBCRYPTO_PKCS11_SENSITIVE = None \<rparr>"
  let ?attrs = "\<lparr> attr_value = whole [1, 2, 3], attr_valueLen = 3 \<rparr>"
  let ?jwk = "Jwk \<lparr> jwk_kty = Some ''oct'', jwk_k = Some ''AQID'', jwk_alg = Some ''A24CBC'',
      jwk_ext = Some True \<rparr>"
  have a: "getAttribute store_session (key_obj ?key) = Inr ?attrs"
    by (simp add: store_session_def)
  have name: "regex_exec (alg_name (key_algorithm ?key)) = Some ''CBC''"
    by (simp add: regex_match_here_def is_word_char_def)
  have l: "Number_toString (Number 24) = ''24''"
    by (simp add: Number_toString_def string_of_nat.simps)
  note raw = format_case_sensitivity [of store_session "''RAW''" ?key ?attrs ?env
      store_session "[7]" "Raw [1, 2, 3]" "''AES-CBC''" True "[]"]
  note der = format_case_sensitivity [of store_session "''Der''" ?key ?attrs ?env
      store_session "[7]" ?jwk "''AES-CBC''" True "[]"]
  have lower: "toLowerCase ''Der'' \<noteq> ''jwk'' \<and> toLowerCase ''Der'' \<noteq> ''raw''"
    by (simp add: toLowerCase_literals)
  from raw a have "exportKey store_session ''RAW'' ?key = Inr (Raw (buffer (attr_value ?attrs)))"
    by blast
  then have 1: "exportKey store_session ''RAW'' ?key = Inr (Raw [1, 2, 3])"
    by (simp add: buffer_whole)
  from raw a have "exportKey store_session ''JWK'' ?key =
      (case regex_exec (alg_name (key_algorithm ?key)) of
         None \<Rightarrow> Inl TypeError
       | Some aes \<Rightarrow>
           Inr (Jwk \<lparr> jwk_kty = Some ''oct'',
                      jwk_k = Some (Base64Url_encode (bytes_of (attr_value ?attrs))),
                      jwk_alg = Some (''A''
                        @ Number_toString (Number (attr_valueLen ?attrs * 8)) @ aes),
                      jwk_ext = Some True \<rparr>))"
    by blast
  then have 2: "exportKey store_session ''JWK'' ?key = Inr ?jwk"
    unfolding name
    by (simp add: bytes_of_whole l sextet_char_def base64url_alphabet_def)
  from der a lower have 3: "exportKey store_session ''Der'' ?key =
      Inl (WebCryptoError (''Unknown format '' @ [CHR 0x27] @ ''Der'' @ [CHR 0x27]))"
    by blast
  from raw have "importKey ?env store_session [7] ''JWK'' (Raw [1, 2, 3]) ''AES-CBC'' True [] =
      importKey ?env store_session [7] ''raw'' (Raw [1, 2, 3]) ''AES-CBC'' True []"
    by blast
  then have 4: "importKey ?env store_session [7] ''JWK'' (Raw [1, 2, 3]) ''AES-CBC'' True [] =
      Inr ?key"
    by (simp add: importKey_other store_session_def)
  from der have "importKey ?env store_session [7] ''JWK'' ?jwk ''AES-CBC'' True [] =
      importKey ?env store_session [7] ''raw'' ?jwk ''AES-CBC'' True []"
    by blast
  then have 5: "importKey ?env store_session [7] ''JWK'' ?jwk ''AES-CBC'' True [] =
      Inl (Pkcs11Error ''CKR_TEMPLATE_INCONSISTENT'')"
    by (simp add: importKey_other store_session_def)
  have 6: "getAttribute store_session [1, 2, 3] = Inr ?attrs"
    using a by simp
  have 7: "toLowerCase ''RAW'' = ''raw''" "''JWK'' \<noteq> ''jwk''"
    by (simp_all add: toLowerCase_literals)
  from 1 2 3 4 5 6 7 show ?thesis
    by (intro conjI)
qed

section \<open>Further properties of the cipher operations\<close>

text \<open>
  On the paths of \<^verbatim>\<open>encrypt\<close> and \<^verbatim>\<open>decrypt\<close> the GCM mapper gets no session, so
  the mechanism carries the older parameter class whatever the module's version.
  The data goes to the cipher without padding, and what is resolved is the
  \<^verbatim>\<open>ArrayBuffer\<close> behind the cipher's result.
\<close>

lemma encrypt_gcm_older_class:
  "encrypt AesGCM session alg key data =
     (case createCipher_once session
             \<lparr> mech_name = ''AES_GCM'',
               mech_params =
                 GcmParams AesGcmParams (PrepareData (iv alg))
                   (map_option PrepareData (additionalData alg))
                   (case tagLength alg of None \<Rightarrow> 128 | Some t \<Rightarrow> if t = 0 then 128 else t) \<rparr>
             (key_obj key) data
             (getOutputBufferSize (key_algorithm key) True (length data)) of
        Inl err \<Rightarrow> Inl err
      | Inr data2 \<Rightarrow> Inr (buffer data2))"
  by (simp add: encrypt_def wc2pk11_def padding_def add_padding_def AesGcmParamsClass_def)

text \<open>
  The base class has no mapper: its \<^verbatim>\<open>encrypt\<close> and \<^verbatim>\<open>decrypt\<close> are rejected with
  \<^verbatim>\<open>NOT_SUPPORTED\<close> before the session is called.
\<close>

lemma base_class_not_supported:
  "encrypt AesCrypto session alg key data = Inl NOT_SUPPORTED
   \<and> decrypt AesCrypto session alg key data = Inl NOT_SUPPORTED"
  by (simp add: encrypt_def decrypt_def wc2pk11_def)

text \<open>
  For ECB, decrypting what \<^verbatim>\<open>encrypt\<close> resolved gives the data back, provided the
  session's buffers fit: whenever the cipher (under the ECB mechanism, with the
  key object of the key) calls back with a buffer, the decipher applied to the
  whole \<^verbatim>\<open>ArrayBuffer\<close> behind that buffer calls back with a buffer whose whole
  \<^verbatim>\<open>ArrayBuffer\<close> is the cipher's input. A session whose output buffers have room
  to spare does not satisfy this.
\<close>

lemma ecb_decrypt_encrypt:
  assumes inverse: "\<forall>p b n n'.
      createCipher_once session \<lparr> mech_name = ''AES_ECB'', mech_params = NoParams \<rparr>
        (key_obj key) p n = Inr b \<longrightarrow>
      (\<exists>b'. createDecipher_once session \<lparr> mech_name = ''AES_ECB'', mech_params = NoParams \<rparr>
        (key_obj key) (buffer b) n' = Inr b' \<and> buffer b' = p)"
    and encrypted: "encrypt AesECB session alg key data = Inr c"
  shows "decrypt AesECB session alg' key c = Inr data"
proof -
  let ?mech = "\<lparr> mech_name = ''AES_ECB'', mech_params = NoParams \<rparr>"
  from encrypted obtain b where
    b: "createCipher_once session ?mech (key_obj key) (add_padding True data)
       (getOutputBufferSize (key_algorithm key) True (length (add_padding True data))) = Inr b"
    and c: "c = buffer b"
    by (auto simp: encrypt_def wc2pk11_def padding_def Let_def split: sum.splits)
  from inverse b obtain b' where
    "createDecipher_once session ?mech (key_obj key) (buffer b)
       (getOutputBufferSize (key_algorithm key) False (length (buffer b))) = Inr b'"
    and "buffer b' = add_padding True data"
    by blast
  then have "decrypt AesECB session alg' key c =
      Inr (remove_padding True (add_padding True data))"
    unfolding c by (simp add: decrypt_def wc2pk11_def padding_def)
  also have "remove_padding True (add_padding True data) = data"
    unfolding add_padding_True by (rule remove_padding_append) simp_all
  finally show ?thesis .
qed

lemma ecb_decrypt_encrypt_witness:
  "encrypt AesECB store_session \<lparr> iv = [], additionalData = None, tagLength = None \<rparr>
      \<lparr> key_obj = [1, 2, 3, 4, 5, 6, 7, 8, 9, 10, 11, 12, 13, 14, 15, 16],
        key_algorithm = \<lparr> alg_name = ''AES-ECB'', alg_length = Number 128 \<rparr> \<rparr>
      [104, 101, 108, 108, 111] =
     Inr ([104, 101, 108, 108, 111] @ replicate 11 11)
   \<and> decrypt AesECB store_session \<lparr> iv = [], additionalData = None, tagLength = None \<rparr>
      \<lparr> key_obj = [1, 2, 3, 4, 5, 6, 7, 8, 9, 10, 11, 12, 13, 14, 15, 16],
        key_algorithm = \<lparr> alg_name = ''AES-ECB'', alg_length = Number 128 \<rparr> \<rparr>
      ([104, 101, 108, 108, 111] @ replicate 11 11) =
     Inr [104, 101, 108, 108, 111]"
proof -
  let ?alg = "\<lparr> iv = [], additionalData = None, tagLength = None \<rparr>"
  let ?key = "\<lparr> key_obj = [1, 2, 3, 4, 5, 6, 7, 8, 9, 10, 11, 12, 13, 14, 15, 16 :: byte],
        key_algorithm = \<lparr> alg_name = ''AES-ECB'', alg_length = Number 128 \<rparr> \<rparr>"
  have inverse: "\<forall>p b n n'.
      createCipher_once store_session \<lparr> mech_name = ''AES_ECB'', mech_params = NoParams \<rparr>
        (key_obj ?key) p n = Inr b \<longrightarrow>
      (\<exists>b'. createDecipher_once store_session \<lparr> mech_name = ''AES_ECB'', mech_params = NoParams \<rparr>
        (key_obj ?key) (buffer b) n' = Inr b' \<and> buffer b' = p)"
    by (auto simp: store_session_def buffer_whole)
  have encrypted: "encrypt AesECB store_session ?alg ?key [104, 101, 108, 108, 111] =
      Inr ([104, 101, 108, 108, 111] @ replicate 11 11)"
    by (simp add: encrypt_def wc2pk11_def padding_def add_padding_True store_session_def
        buffer_whole)
  from ecb_decrypt_encrypt [OF inverse encrypted, of ?alg] encrypted
  show ?thesis by simp
qed

end
